theory Spec2Isabelle
  imports Main
begin

section \<open>Values shared by the kernel and the executor\<close>

text \<open>
  Go strings and byte slices are sequences of bytes; both are modelled as \<open>char list\<close>
  (a HOL \<open>char\<close> is one byte), so that \<open>string(p)\<close> and \<open>[]byte(s)\<close> are the identity.
\<close>

type_synonym bytes = "char list"

text \<open>A Go \<open>error\<close> value, identified by its message; \<open>nil\<close> is \<open>None\<close> of \<open>error option\<close>.\<close>

datatype error = Err string

fun errorString :: "error \<Rightarrow> string" where
  "errorString (Err s) = s"

text \<open>\<open>errors.WithMessagef(err, msg)\<close> of pkg/errors: the message is prefixed to the cause.\<close>

fun WithMessagef :: "error \<Rightarrow> string \<Rightarrow> error" where
  "WithMessagef (Err cause) msg = Err (msg @ '': '' @ cause)"

text \<open>
  A call either returns or panics (a nil-interface method call, closing a nil or closed
  channel, calling a nil function value).
\<close>

datatype 'a outcome = Panic | Return 'a

text \<open>
  A value of Go's \<open>any\<close> as it occurs in a \<open>MIMEMap\<close>: the dynamic types the source
  distinguishes (\<open>string\<close>, \<open>[]byte\<close>) and the others it may meet.
\<close>

datatype any = AnyNil | AnyString string | AnyBytes bytes | AnyBool bool | AnyInt int

fun goTypeName :: "any \<Rightarrow> string" where
  "goTypeName AnyNil = ''<nil>''"
| "goTypeName (AnyString _) = ''string''"
| "goTypeName (AnyBytes _) = ''[]uint8''"
| "goTypeName (AnyBool _) = ''bool''"
| "goTypeName (AnyInt _) = ''int''"

text \<open>
  \<open>MIMEMap = map[string]any\<close>. A Go map may be \<open>nil\<close> (\<open>None\<close>); reading a nil map finds
  no key.
\<close>

type_synonym MIMEMap = "(string \<rightharpoonup> any) option"

definition mapIndex :: "MIMEMap \<Rightarrow> string \<Rightarrow> any option" where
  "mapIndex m key = (case m of None \<Rightarrow> None | Some f \<Rightarrow> f key)"

definition EnsureMIMEMap :: "MIMEMap \<Rightarrow> MIMEMap" where
  "EnsureMIMEMap bundle = (case bundle of None \<Rightarrow> Some Map.empty | Some f \<Rightarrow> Some f)"

record Data =
  Data :: MIMEMap
  Metadata :: MIMEMap
  Transient :: MIMEMap

section \<open>Messages (package kernel)\<close>

record zmqMsgHeader =
  MsgID :: string
  Username :: string
  Session :: string
  MsgType :: string
  ProtocolVersion :: string
  Timestamp :: string

text \<open>
  The payloads the functions of this development put into \<open>ComposedMsg.Content\<close> (an \<open>any\<close>
  in the source): the anonymous structs of the publishing functions, the map of
  \<open>PromptInput\<close>, and \<open>nil\<close> for a message whose content was not set.
\<close>

datatype content =
    NoContent
  | DisplayContent MIMEMap MIMEMap MIMEMap
  | StreamContent string string
  | InputRequestContent string bool
  | InputReplyContent "string \<rightharpoonup> any"

record ComposedMsg =
  Header :: zmqMsgHeader
  ParentHeader :: zmqMsgHeader
  MsgMetadata :: MIMEMap
  Content :: content

definition zeroHeader :: zmqMsgHeader where
  "zeroHeader = \<lparr>MsgID = [], Username = [], Session = [], MsgType = [],
     ProtocolVersion = [], Timestamp = []\<rparr>"

definition zeroComposedMsg :: ComposedMsg where
  "zeroComposedMsg = \<lparr>Header = zeroHeader, ParentHeader = zeroHeader,
     MsgMetadata = None, Content = NoContent\<rparr>"

text \<open>
  \<open>MessageImpl\<close> without its \<open>kernel\<close> pointer: every message of a session points to the
  one Kernel, which the functions below take and return as explicit state. A \<open>Message\<close>
  interface value is a \<open>MessageImpl option\<close>, \<open>None\<close> being the nil interface.
\<close>

record MessageImpl =
  err :: "error option"
  Composed :: ComposedMsg
  Identities :: "bytes list"

text \<open>
  What one call gets from outside the package: the constant \<open>ProtocolVersion\<close> (declared in
  a file of the package that is not part of the sources at hand), the formatted clock, the
  result of \<open>uuid.NewV4()\<close>, the result of \<open>Kernel.ToWireMsg\<close> and of \<open>Socket.SendMulti\<close>.
\<close>

record extcalls =
  protocolVersion :: string
  timeNow :: string
  newV4 :: "error + string"
  ToWireMsg :: "ComposedMsg \<Rightarrow> error + bytes list"
  SendMulti :: "error option"

text \<open>What a socket has sent: the envelope next to the frames that carried it.\<close>

type_synonym sent = "ComposedMsg \<times> bytes list"

text \<open>
  Modelled from the spec: the \<open>Kernel\<close> struct (the session), declared outside the sources
  at hand. Its fields are the ones the functions below use: the execution counter, the set
  of known display ids (\<open>Has\<close>/\<open>Insert\<close>), the single pending-input slot (\<open>stdinMsg\<close>,
  \<open>stdinFn\<close>), the registry of interrupt subscriptions (id and callback, in the order of
  subscription), and the three sockets written to, each as the list of what it has sent.
  \<open>'f\<close> is the type of the \<open>OnInputFn\<close> callbacks, \<open>'c\<close> the type of the interrupt
  callbacks. The atomic flag \<open>Interrupted\<close> is written by other goroutines while a program
  runs; the value a load sees is part of the environment of the function that loads it.
\<close>

record ('f, 'c) Kernel =
  ExecCounter :: int
  KnownBlockIds :: "string set"
  stdinMsg :: "MessageImpl option"
  stdinFn :: "'f option"
  subscriptions :: "(nat \<times> 'c) list"
  IOPubSocket :: "sent list"
  ShellSocket :: "sent list"
  StdinSocket :: "sent list"

text \<open>
  Modelled from the spec: \<open>Kernel.SubscribeInterrupt\<close>, whose source is outside the
  sources at hand: the registry maps an id to a callback, and the id is chosen by the
  kernel (here given by the caller's environment).
\<close>

definition SubscribeInterrupt :: "nat \<Rightarrow> 'c \<Rightarrow> ('f, 'c) Kernel \<Rightarrow> ('f, 'c) Kernel" where
  "SubscribeInterrupt newId fn k = k\<lparr>subscriptions := subscriptions k @ [(newId, fn)]\<rparr>"

text \<open>
  Modelled from the spec: \<open>Kernel.UnsubscribeInterrupt\<close>, whose source is outside the
  sources at hand: the subscription with the given id is removed from the registry.
\<close>

definition UnsubscribeInterrupt :: "nat \<Rightarrow> ('f, 'c) Kernel \<Rightarrow> ('f, 'c) Kernel" where
  "UnsubscribeInterrupt subId k =
     k\<lparr>subscriptions := filter (\<lambda>s. fst s \<noteq> subId) (subscriptions k)\<rparr>"

definition sendMessage ::
  "extcalls \<Rightarrow> MessageImpl \<Rightarrow> sent list \<Rightarrow> ComposedMsg \<Rightarrow> error option \<times> sent list" where
  "sendMessage x m socket msg =
     (case ToWireMsg x msg of
        Inl e \<Rightarrow> (Some e, socket)
      | Inr msgParts \<Rightarrow>
          (let frames = Identities m @ [''<IDS|MSG>''] @ msgParts
           in case SendMulti x of
                Some e \<Rightarrow> (Some e, socket)
              | None \<Rightarrow> (None, socket @ [(msg, frames)])))"

definition NewComposed :: "extcalls \<Rightarrow> string \<Rightarrow> ComposedMsg \<Rightarrow> ComposedMsg \<times> error option" where
  "NewComposed x msgType parent =
     (let msg = zeroComposedMsg\<lparr>ParentHeader := Header parent\<rparr>;
          msg = msg\<lparr>Header := (Header msg)\<lparr>Session := Session (Header parent)\<rparr>\<rparr>;
          msg = msg\<lparr>Header := (Header msg)\<lparr>Username := Username (Header parent)\<rparr>\<rparr>;
          msg = msg\<lparr>Header := (Header msg)\<lparr>MsgType := msgType\<rparr>\<rparr>;
          msg = msg\<lparr>Header := (Header msg)\<lparr>ProtocolVersion := protocolVersion x\<rparr>\<rparr>;
          msg = msg\<lparr>Header := (Header msg)\<lparr>Timestamp := timeNow x\<rparr>\<rparr>
      in case newV4 x of
           Inl e \<Rightarrow> (msg, Some e)
         | Inr u \<Rightarrow> (msg\<lparr>Header := (Header msg)\<lparr>MsgID := u\<rparr>\<rparr>, None))"

definition Publish ::
  "extcalls \<Rightarrow> MessageImpl \<Rightarrow> string \<Rightarrow> content \<Rightarrow> ('f, 'c) Kernel
     \<Rightarrow> error option \<times> ('f, 'c) Kernel" where
  "Publish x m msgType cont k =
     (case NewComposed x msgType (Composed m) of
        (msg, Some e) \<Rightarrow> (Some e, k)
      | (msg, None) \<Rightarrow>
          (let msg = msg\<lparr>Content := cont\<rparr>;
               (e, socket) = sendMessage x m (IOPubSocket k) msg
           in (e, k\<lparr>IOPubSocket := socket\<rparr>)))"

definition PromptInput ::
  "extcalls \<Rightarrow> MessageImpl \<Rightarrow> string \<Rightarrow> bool \<Rightarrow> 'f option \<Rightarrow> ('f, 'c) Kernel
     \<Rightarrow> error option \<times> ('f, 'c) Kernel" where
  "PromptInput x m prompt password onInput k =
     (case NewComposed x ''input_request'' (Composed m) of
        (inputRequest, Some e) \<Rightarrow>
          (Some (WithMessagef e ''MessageImpl.PromptInput(): creating an input_request message''), k)
      | (inputRequest, None) \<Rightarrow>
          (let inputRequest = inputRequest\<lparr>Content := InputRequestContent prompt password\<rparr>;
               (e, socket) = sendMessage x m (StdinSocket k) inputRequest;
               k = k\<lparr>StdinSocket := socket\<rparr>
           in case e of
                Some e \<Rightarrow>
                  (Some (WithMessagef e ''MessageImpl.PromptInput(): sending input_request message''), k)
              | None \<Rightarrow> (None, k\<lparr>stdinMsg := Some m, stdinFn := onInput\<rparr>)))"

definition CancelInput :: "MessageImpl \<Rightarrow> error option" where
  "CancelInput m = None"

text \<open>
  \<open>DeliverInput\<close> calls the registered function value. \<open>call f original input k\<close> is what
  the callback \<open>f\<close> does: it may return an error and change the kernel (re-register, for
  one). A nil function value in the slot panics when called.
\<close>

definition DeliverInput ::
  "('f \<Rightarrow> MessageImpl \<Rightarrow> MessageImpl \<Rightarrow> ('f, 'c) Kernel \<Rightarrow> (error option \<times> ('f, 'c) Kernel) outcome)
     \<Rightarrow> MessageImpl \<Rightarrow> ('f, 'c) Kernel \<Rightarrow> (error option \<times> ('f, 'c) Kernel) outcome" where
  "DeliverInput call m k =
     (case stdinMsg k of
        None \<Rightarrow> Return (None, k)
      | Some original \<Rightarrow>
          (case stdinFn k of
             None \<Rightarrow> Panic
           | Some f \<Rightarrow> call f original m k))"

text \<open>
  The publishing functions take a \<open>Message\<close> interface value. \<open>LogDisplayData\<close> only
  writes to the log and is left out.
\<close>

definition PublishDisplayData ::
  "extcalls \<Rightarrow> MessageImpl option \<Rightarrow> Data \<Rightarrow> ('f, 'c) Kernel
     \<Rightarrow> (error option \<times> ('f, 'c) Kernel) outcome" where
  "PublishDisplayData x msg data k =
     (case msg of
        None \<Rightarrow> Return (None, k)
      | Some m \<Rightarrow>
          Return (Publish x m ''display_data''
            (DisplayContent (Data data) (EnsureMIMEMap (Metadata data))
               (EnsureMIMEMap (Transient data))) k))"

definition PublishData ::
  "extcalls \<Rightarrow> MessageImpl option \<Rightarrow> Data \<Rightarrow> ('f, 'c) Kernel
     \<Rightarrow> (error option \<times> ('f, 'c) Kernel) outcome" where
  "PublishData x msg data k = PublishDisplayData x msg data k"

definition PublishUpdateDisplayData ::
  "extcalls \<Rightarrow> MessageImpl option \<Rightarrow> Data \<Rightarrow> ('f, 'c) Kernel
     \<Rightarrow> (error option \<times> ('f, 'c) Kernel) outcome" where
  "PublishUpdateDisplayData x msg data k =
     (case mapIndex (Transient data) ''display_id'' of
        None \<Rightarrow>
          Return (Some (Err ''PublishUpdateDisplayData without a Trasient[display_id] set!?''), k)
      | Some (AnyString displayId) \<Rightarrow>
          (case msg of
             None \<Rightarrow> Panic
           | Some m \<Rightarrow>
               (let (msgType, k) =
                      (if displayId \<in> KnownBlockIds k then (''update_display_data'', k)
                       else (''display_data'',
                             k\<lparr>KnownBlockIds := insert displayId (KnownBlockIds k)\<rparr>))
                in Return (Publish x m msgType
                     (DisplayContent (Data data) (EnsureMIMEMap (Metadata data))
                        (Transient data)) k)))
      | Some displayIdAny \<Rightarrow>
          Return (Some (Err (''PublishUpdateDisplayData call with a Trasient[display_id] that is not string, instead ''
                    @ goTypeName displayIdAny @ ''!?'')), k))"

definition StreamStdout :: string where
  "StreamStdout = ''stdout''"

definition StreamStderr :: string where
  "StreamStderr = ''stderr''"

definition PublishWriteStream ::
  "extcalls \<Rightarrow> MessageImpl option \<Rightarrow> string \<Rightarrow> string \<Rightarrow> ('f, 'c) Kernel
     \<Rightarrow> error option \<times> ('f, 'c) Kernel" where
  "PublishWriteStream x msg stream data k =
     (case msg of
        None \<Rightarrow> (None, k)
      | Some m \<Rightarrow> Publish x m ''stream'' (StreamContent stream data) k)"

text \<open>The fields \<open>stream\<close> and \<open>msg\<close> of the writer, prefixed to keep the names free.\<close>

record jupyterStreamWriter =
  w_stream :: string
  w_msg :: "MessageImpl option"

definition NewJupyterStreamWriter :: "MessageImpl option \<Rightarrow> string \<Rightarrow> jupyterStreamWriter" where
  "NewJupyterStreamWriter m s = \<lparr>w_stream = s, w_msg = m\<rparr>"

text \<open>\<open>Write\<close> returns \<open>(n, err)\<close>; the failure of the publish is only logged.\<close>

definition Write ::
  "extcalls \<Rightarrow> jupyterStreamWriter \<Rightarrow> bytes \<Rightarrow> ('f, 'c) Kernel
     \<Rightarrow> (int \<times> error option) \<times> ('f, 'c) Kernel" where
  "Write x w p k =
     (let data = p;
          (e, k) = PublishWriteStream x (w_msg w) (w_stream w) data k
      in ((int (length p), None), k))"


section \<open>Running a program (package jpyexec)\<close>

text \<open>
  A pipe end is identified by a number. The executor's effects on the outside world are
  recorded in the order in which it causes them: goroutines it starts, the notifications
  to the comms handler, the start of the child, what is written to a writer given by the
  caller, signals, closing of pipe ends and of the completion channel, and the time a
  \<open>select\<close> statement took. \<open>Kill target sig\<close> is the system call behind \<open>Process.Signal\<close>:
  a positive target is the one process with that pid, a negative target \<open>- pgid\<close> would
  be a whole process group.
\<close>

type_synonym handle = nat

datatype signal = Interrupt | SIGKILL

datatype chan = NilChan | OpenChan | ClosedChan

datatype task = CopyStdout | CopyStderr | SchedulePrompt | WriteStaticInput

datatype effect =
    Go task
  | ProgramStart
  | StartChild nat
  | WriteTo nat bytes
  | Kill int signal
  | Waited nat
  | Close handle
  | CloseDoneChan
  | ProgramFinished

text \<open>
  An \<open>io.Writer\<close>: the writer to the front-end of package kernel, or a writer of the
  caller's, identified by a number.
\<close>

datatype writer = JupyterWriter jupyterStreamWriter | GivenWriter nat

text \<open>The pipe of the child that a piece of its output comes from.\<close>

datatype source = FromStdout | FromStderr

record Cmd =
  Path :: string
  Args :: "string list"
  Dir :: string
  Process :: "nat option"

text \<open>
  The \<open>Executor\<close> struct. The fields that only \<open>handleNamedPipes\<close> uses (the named pipes
  and their queue) are left out with it: that method is in a file outside the sources at
  hand, and only its result reaches \<open>Exec\<close>. An interface or pointer field is an option,
  \<open>None\<close> being nil.
\<close>

record Executor =
  Msg :: "MessageImpl option"
  executionCount :: int
  command :: string
  args :: "string list"
  dir :: string
  useNamedPipes :: bool
  commsHandler :: "nat option"
  stdoutWriter :: "writer option"
  stderrWriter :: "writer option"
  stdinContent :: "bytes option"
  millisecondsToInput :: int
  inputPassword :: bool
  cmd :: "Cmd option"
  cmdStdout :: "handle option"
  cmdStderr :: "handle option"
  cmdStdin :: "handle option"
  isDone :: bool
  doneChan :: chan

definition New :: "MessageImpl option \<Rightarrow> string \<Rightarrow> string list \<Rightarrow> Executor" where
  "New m c as =
     \<lparr>Msg = m, executionCount = - 1, command = c, args = as, dir = [],
      useNamedPipes = False, commsHandler = None, stdoutWriter = None, stderrWriter = None,
      stdinContent = None, millisecondsToInput = - 1, inputPassword = False,
      cmd = None, cmdStdout = None, cmdStderr = None, cmdStdin = None,
      isDone = False, doneChan = NilChan\<rparr>"

definition UseNamedPipes :: "nat option \<Rightarrow> Executor \<Rightarrow> Executor" where
  "UseNamedPipes h exec = exec\<lparr>useNamedPipes := True, commsHandler := h\<rparr>"

definition WithInputs :: "int \<Rightarrow> Executor \<Rightarrow> Executor" where
  "WithInputs millisecondsWait exec =
     exec\<lparr>millisecondsToInput := millisecondsWait, inputPassword := False\<rparr>"

definition WithPassword :: "int \<Rightarrow> Executor \<Rightarrow> Executor" where
  "WithPassword millisecondsWait exec =
     exec\<lparr>millisecondsToInput := millisecondsWait, inputPassword := True\<rparr>"

definition WithStaticInput :: "bytes option \<Rightarrow> Executor \<Rightarrow> Executor" where
  "WithStaticInput c exec = exec\<lparr>stdinContent := c\<rparr>"

text \<open>\<open>WaitToKill = 5 * time.Second\<close>; a \<open>time.Duration\<close> counts nanoseconds.\<close>

definition Second :: nat where
  "Second = 1000000000"

definition WaitToKill :: nat where
  "WaitToKill = 5 * Second"

subsection \<open>Teardown\<close>

text \<open>
  \<open>done\<close> holds the mutex \<open>muDone\<close> from its first statement to its return (the unlock
  is deferred, so it also runs when the body panics): invocations from several goroutines
  run one after another, and the function is modelled as one sequential step on the
  executor. Its body is a sequence of statements, each of which may panic; \<open>steps\<close> runs
  them in order and stops at the first panic, keeping the effects caused so far.
\<close>

type_synonym step = "Executor \<Rightarrow> unit outcome \<times> Executor \<times> effect list"

fun steps :: "step list \<Rightarrow> step" where
  "steps [] exec = (Return (), exec, [])"
| "steps (f # fs) exec =
     (case f exec of
        (Panic, exec', t) \<Rightarrow> (Panic, exec', t)
      | (Return u, exec', t) \<Rightarrow>
          (case steps fs exec' of (r, exec'', t') \<Rightarrow> (r, exec'', t @ t')))"

definition setIsDone :: step where
  "setIsDone exec = (Return (), exec\<lparr>isDone := True\<rparr>, [])"

text \<open>\<open>if exec.millisecondsToInput > 0 { _ = exec.Msg.CancelInput() }\<close>\<close>

definition cancelInput :: step where
  "cancelInput exec =
     (if 0 < millisecondsToInput exec
      then (case Msg exec of
              None \<Rightarrow> (Panic, exec, [])
            | Some m \<Rightarrow> (case CancelInput m of _ \<Rightarrow> (Return (), exec, [])))
      else (Return (), exec, []))"

text \<open>\<open>_ = p.Close()\<close> on a pipe end held in an interface field: a nil interface panics.\<close>

definition closePipe :: "(Executor \<Rightarrow> handle option) \<Rightarrow> step" where
  "closePipe field exec =
     (case field exec of
        None \<Rightarrow> (Panic, exec, [])
      | Some h \<Rightarrow> (Return (), exec, [Close h]))"

text \<open>\<open>close(exec.doneChan)\<close>: closing a nil or a closed channel panics.\<close>

definition closeDoneChan :: step where
  "closeDoneChan exec =
     (case doneChan exec of
        OpenChan \<Rightarrow> (Return (), exec\<lparr>doneChan := ClosedChan\<rparr>, [CloseDoneChan])
      | NilChan \<Rightarrow> (Panic, exec, [])
      | ClosedChan \<Rightarrow> (Panic, exec, []))"

definition programFinished :: step where
  "programFinished exec =
     (if useNamedPipes exec \<and> commsHandler exec \<noteq> None
      then (Return (), exec, [ProgramFinished])
      else (Return (), exec, []))"

definition done_exec :: step where
  "done_exec exec =
     (if isDone exec then (Return (), exec, [])
      else steps [setIsDone, cancelInput, closePipe cmdStdin, closeDoneChan,
                  closePipe cmdStderr, closePipe cmdStdout, programFinished] exec)"

subsection \<open>The interrupt callback\<close>

text \<open>
  The function value that \<open>Exec\<close> registers captures \<open>cmd\<close> (whose process it signals),
  \<open>exec\<close> (whose completion channel it waits on) and the variable \<open>interruptId\<close>, which
  holds the subscription id once \<open>SubscribeInterrupt\<close> has returned. The closure is
  represented by the pid of the started child and that id.
\<close>

datatype interruptFn = InterruptFn nat nat

text \<open>
  The \<open>select\<close> between the completion channel and \<open>time.After(WaitToKill)\<close>, with time
  idealised: \<open>doneClosedAfter\<close> is the time from the start of the \<open>select\<close> at which
  \<open>doneChan\<close> is closed (\<open>None\<close>: never, \<open>Some 0\<close>: it already is), and when both cases become
  ready at once \<open>bothReadyTakesDone\<close> tells which one the runtime picks.
\<close>

record selectenv =
  doneClosedAfter :: "nat option"
  bothReadyTakesDone :: bool

datatype selected = DoneChanCase | TimeAfterCase

definition selectDoneOrAfter :: "selectenv \<Rightarrow> nat \<Rightarrow> selected \<times> nat" where
  "selectDoneOrAfter se timeout =
     (case doneClosedAfter se of
        None \<Rightarrow> (TimeAfterCase, timeout)
      | Some t \<Rightarrow>
          (if t < timeout then (DoneChanCase, t)
           else if timeout < t then (TimeAfterCase, timeout)
           else if bothReadyTakesDone se then (DoneChanCase, t)
           else (TimeAfterCase, timeout)))"

text \<open>
  The callback: \<open>cmd.Process.Signal(os.Interrupt)\<close>, \<open>UnsubscribeInterrupt(interruptId)\<close>,
  then the \<open>select\<close>, and \<open>cmd.Process.Signal(syscall.SIGKILL)\<close> in its timeout case. The
  errors of \<open>Signal\<close> are only logged. The parameter \<open>id\<close> of the callback is not used.
\<close>

fun interruptCallback ::
  "selectenv \<Rightarrow> interruptFn \<Rightarrow> nat \<Rightarrow> ('f, 'c) Kernel \<Rightarrow> effect list \<times> ('f, 'c) Kernel" where
  "interruptCallback se (InterruptFn pid interruptId) subId k =
     (let t = [Kill (int pid) Interrupt];
          k = UnsubscribeInterrupt interruptId k;
          (sel, waited) = selectDoneOrAfter se WaitToKill;
          t = t @ [Waited waited]
      in case sel of
           DoneChanCase \<Rightarrow> (t, k)
         | TimeAfterCase \<Rightarrow> (t @ [Kill (int pid) SIGKILL], k))"

text \<open>
  Modelled from the spec: the kernel's handling of an interrupt request, whose source is
  outside the sources at hand: each callback registered at the time of the request is
  invoked once, with its id. \<open>call\<close> is what a callback does.
\<close>

fun callSubscribers ::
  "('c \<Rightarrow> nat \<Rightarrow> ('f, 'c) Kernel \<Rightarrow> effect list \<times> ('f, 'c) Kernel) \<Rightarrow> (nat \<times> 'c) list
     \<Rightarrow> ('f, 'c) Kernel \<Rightarrow> effect list \<times> ('f, 'c) Kernel" where
  "callSubscribers call [] k = ([], k)"
| "callSubscribers call ((subId, fn) # ss) k =
     (case call fn subId k of
        (t, k') \<Rightarrow> (case callSubscribers call ss k' of (t', k'') \<Rightarrow> (t @ t', k'')))"

text \<open>
  Modelled from the spec: an interrupt request, whose handling by the kernel is outside
  the sources at hand: the callbacks registered when the request arrives are called.
\<close>

definition interruptRequest ::
  "('c \<Rightarrow> nat \<Rightarrow> ('f, 'c) Kernel \<Rightarrow> effect list \<times> ('f, 'c) Kernel)
     \<Rightarrow> ('f, 'c) Kernel \<Rightarrow> effect list \<times> ('f, 'c) Kernel" where
  "interruptRequest call k = callSubscribers call (subscriptions k) k"

subsection \<open>Exec\<close>

text \<open>
  What one call of \<open>Exec\<close> gets from outside: the results of creating the three pipes, of
  \<open>handleNamedPipes\<close> and of \<open>cmd.Start()\<close> (the pid of the child when it starts), the id
  that \<open>SubscribeInterrupt\<close> returns, what the child writes, whether the two copying
  goroutines come to an end (\<open>streamersWG.Wait()\<close> returns), the result of \<open>cmd.Wait()\<close>
  (\<open>None\<close>: the child has not exited and the call does not return), the value of the
  kernel's \<open>Interrupted\<close> flag when \<open>Exec\<close> loads it, and what the publishing of the exit
  error meets.

  \<open>childOutput\<close> is the sequence of \<open>Write\<close> calls that the two \<open>io.Copy\<close> goroutines make, in
  the order in which they happen: the pipe the bytes were read from, the bytes, and what
  the publishing of these bytes meets outside. The two goroutines run side by side, so
  the order between the two pipes is the environment's; a copy that ends early (a writer
  of the caller's that fails) simply has no further entry.
\<close>

record execenv =
  StdoutPipe :: "error + handle"
  StderrPipe :: "error + handle"
  StdinPipe :: "error + handle"
  handleNamedPipes :: "error option"
  Start :: "error + nat"
  newSubscriptionId :: nat
  childOutput :: "(source \<times> bytes \<times> extcalls) list"
  streamersDone :: bool
  Wait :: "error option option"
  InterruptedLoad :: bool
  publishCalls :: extcalls

text \<open>
  How a call of \<open>Exec\<close> ends: it panics, it returns an error or nil, or it is still
  waiting for the streams or for the child (\<open>Blocks\<close>); the state that comes with \<open>Blocks\<close>
  is the one in which the call waits, that is the state of the running execution.
\<close>

datatype execResult = Panics | Blocks | Returns "error option"

text \<open>The verb \<open>%q\<close> of the error message, without the escapes of special characters.\<close>

definition quoted :: "string \<Rightarrow> string" where
  "quoted s = CHR 0x22 # s @ [CHR 0x22]"

definition newline :: string where
  "newline = [CHR 0x0A]"

text \<open>
  The two goroutines \<open>io.Copy(exec.stdoutWriter, exec.cmdStdout)\<close> and
  \<open>io.Copy(exec.stderrWriter, exec.cmdStderr)\<close>: every piece of output is written to the
  writer of its pipe. The writer to the front-end publishes it (\<open>Write\<close> of package
  kernel); a write to a writer of the caller's is recorded as an effect.
\<close>

fun copyOutput ::
  "writer \<Rightarrow> writer \<Rightarrow> (source \<times> bytes \<times> extcalls) list \<Rightarrow> ('f, 'c) Kernel
     \<Rightarrow> ('f, 'c) Kernel \<times> effect list" where
  "copyOutput outW errW [] k = (k, [])"
| "copyOutput outW errW ((src, p, x) # rest) k =
     (case (case src of FromStdout \<Rightarrow> outW | FromStderr \<Rightarrow> errW) of
        JupyterWriter w \<Rightarrow> copyOutput outW errW rest (snd (Write x w p k))
      | GivenWriter n \<Rightarrow>
          (case copyOutput outW errW rest k of (k', t) \<Rightarrow> (k', WriteTo n p # t)))"

text \<open>
  The body of \<open>Exec\<close> from the default writers on, entered once the three pipes exist. Of
  the goroutines it starts, the two that copy the output of the child are run where
  \<open>Exec\<close> waits for them: all their writes are over when \<open>streamersWG.Wait()\<close> returns, and
  before the child has started there is nothing to copy. The other goroutines are only
  recorded: the one that prompts for input sends on the stdin socket, and those of
  \<open>handleNamedPipes\<close> are outside the sources at hand. The effects of the interrupt
  callback belong to the goroutine that runs it and are those of \<open>interruptCallback\<close>.
  When the message is nil the call panics as soon as the child has started; what the
  copying goroutines write until then is not recorded.
\<close>

definition Exec_started ::
  "execenv \<Rightarrow> Executor \<Rightarrow> ('f, interruptFn) Kernel
     \<Rightarrow> execResult \<times> Executor \<times> ('f, interruptFn) Kernel \<times> effect list" where
  "Exec_started env exec k =
     (let outW = (case stdoutWriter exec of
                    None \<Rightarrow> JupyterWriter (NewJupyterStreamWriter (Msg exec) StreamStdout)
                  | Some w \<Rightarrow> w);
          exec = exec\<lparr>stdoutWriter := Some outW\<rparr>;
          errW = (case stderrWriter exec of
                    None \<Rightarrow> JupyterWriter (NewJupyterStreamWriter (Msg exec) StreamStderr)
                  | Some w \<Rightarrow> w);
          exec = exec\<lparr>stderrWriter := Some errW\<rparr>;
          t = [Go CopyStdout, Go CopyStderr];
          t = t @ (if 0 < millisecondsToInput exec then [Go SchedulePrompt] else [])
      in case (if useNamedPipes exec then handleNamedPipes env else None) of
           Some e \<Rightarrow> (Returns (Some e), exec, k, t)
         | None \<Rightarrow>
      (let t = t @ (if useNamedPipes exec \<and> commsHandler exec \<noteq> None
                    then [ProgramStart] else [])
       in case Start env of
            Inl e \<Rightarrow>
              (Returns (Some (WithMessagef e
                 (''failed to start to execute command '' @ quoted (command exec)))), exec, k, t)
          | Inr pid \<Rightarrow>
      (let exec = exec\<lparr>cmd := map_option (\<lambda>c. c\<lparr>Process := Some pid\<rparr>) (cmd exec)\<rparr>;
           t = t @ [StartChild pid]
       in case Msg exec of
            None \<Rightarrow> (Panics, exec, k, t)
          | Some m \<Rightarrow>
      (let interruptId = newSubscriptionId env;
           k = SubscribeInterrupt interruptId (InterruptFn pid interruptId) k;
           t = t @ (if stdinContent exec \<noteq> None then [Go WriteStaticInput] else []);
           (k, written) = copyOutput outW errW (childOutput env) k;
           t = t @ written
       in if \<not> streamersDone env then (Blocks, exec, k, t)
          else case Wait env of
                 None \<Rightarrow> (Blocks, exec, k, t)
               | Some None \<Rightarrow> (Returns None, exec, UnsubscribeInterrupt interruptId k, t)
               | Some (Some e) \<Rightarrow>
                   (let errMsg = errorString e @ newline;
                        errMsg = (if InterruptedLoad env then ''^C'' @ newline @ errMsg
                                  else errMsg);
                        k = snd (PublishWriteStream (publishCalls env) (Msg exec)
                                   StreamStderr errMsg k)
                    in (Returns None, exec, UnsubscribeInterrupt interruptId k, t))))))"

text \<open>
  The body of \<open>Exec\<close> up to its return: the flag and the channel are reset, the command is
  built, and the three pipes are created in turn; a failed creation assigns nil to its
  field and returns the error.
\<close>

definition Exec_body ::
  "execenv \<Rightarrow> Executor \<Rightarrow> ('f, interruptFn) Kernel
     \<Rightarrow> execResult \<times> Executor \<times> ('f, interruptFn) Kernel \<times> effect list" where
  "Exec_body env exec k =
     (let exec = exec\<lparr>isDone := False, doneChan := OpenChan\<rparr>;
          exec = exec\<lparr>cmd := Some \<lparr>Path = command exec, Args = args exec, Dir = dir exec,
                                   Process = None\<rparr>\<rparr>
      in case StdoutPipe env of
           Inl e \<Rightarrow>
             (Returns (Some (WithMessagef e ''failed to create pipe for stdout'')),
              exec\<lparr>cmdStdout := None\<rparr>, k, [])
         | Inr out \<Rightarrow>
      (let exec = exec\<lparr>cmdStdout := Some out\<rparr>
       in case StderrPipe env of
            Inl e \<Rightarrow>
              (Returns (Some (WithMessagef e ''failed to create pipe for stderr'')),
               exec\<lparr>cmdStderr := None\<rparr>, k, [])
          | Inr errPipe \<Rightarrow>
      (let exec = exec\<lparr>cmdStderr := Some errPipe\<rparr>
       in case StdinPipe env of
            Inl e \<Rightarrow>
              (Returns (Some (WithMessagef e ''failed to create pipe for stdin'')),
               exec\<lparr>cmdStdin := None\<rparr>, k, [])
          | Inr inPipe \<Rightarrow> Exec_started env (exec\<lparr>cmdStdin := Some inPipe\<rparr>) k)))"

text \<open>
  \<open>Exec\<close> with its deferred \<open>done\<close>: the teardown runs when the body returns and when it
  panics, not while it waits; a panic of the teardown replaces the return.
\<close>

definition Exec ::
  "execenv \<Rightarrow> Executor \<Rightarrow> ('f, interruptFn) Kernel
     \<Rightarrow> execResult \<times> Executor \<times> ('f, interruptFn) Kernel \<times> effect list" where
  "Exec env exec k =
     (case Exec_body env exec k of
        (Blocks, exec', k', t) \<Rightarrow> (Blocks, exec', k', t)
      | (r, exec', k', t) \<Rightarrow>
          (case done_exec exec' of
             (Panic, exec'', t') \<Rightarrow> (Panics, exec'', k', t @ t')
           | (Return u, exec'', t') \<Rightarrow> (r, exec'', k', t @ t')))"

section \<open>Observations and scenarios\<close>

text \<open>The type and the content of each envelope a socket has sent, in order.\<close>

definition published :: "sent list \<Rightarrow> (string \<times> content) list" where
  "published socket = map (\<lambda>s. (MsgType (Header (fst s)), Content (fst s))) socket"

text \<open>The types alone.\<close>

definition sentTypes :: "sent list \<Rightarrow> string list" where
  "sentTypes socket = map (\<lambda>s. MsgType (Header (fst s))) socket"

text \<open>
  A sequence of calls of \<open>PublishUpdateDisplayData\<close>, each with what it meets outside, its
  message and its data; the errors returned are collected.
\<close>

fun callsPublishUpdateDisplayData ::
  "(extcalls \<times> MessageImpl option \<times> Data) list \<Rightarrow> ('f, 'c) Kernel
     \<Rightarrow> (error option list \<times> ('f, 'c) Kernel) outcome" where
  "callsPublishUpdateDisplayData [] k = Return ([], k)"
| "callsPublishUpdateDisplayData ((x, m, data) # cs) k =
     (case PublishUpdateDisplayData x m data k of
        Panic \<Rightarrow> Panic
      | Return (e, k') \<Rightarrow>
          (case callsPublishUpdateDisplayData cs k' of
             Panic \<Rightarrow> Panic
           | Return (es, k'') \<Rightarrow> Return (e # es, k'')))"

text \<open>A call carries the display id \<open>d\<close> on a message that is not nil.\<close>

definition carries :: "string \<Rightarrow> (extcalls \<times> MessageImpl option \<times> Data) \<Rightarrow> bool" where
  "carries d c = (case c of (x, m, data) \<Rightarrow>
      m \<noteq> None \<and> mapIndex (Transient data) ''display_id'' = Some (AnyString d))"

text \<open>The message types of \<open>n\<close> calls with one display id on a fresh session.\<close>

fun expectedTypes :: "nat \<Rightarrow> string list" where
  "expectedTypes 0 = []"
| "expectedTypes (Suc n) = ''display_data'' # replicate n ''update_display_data''"

text \<open>Of the types \<open>ts\<close> of a sequence of calls, those of the calls that returned no error.\<close>

definition publishedTypes :: "error option list \<Rightarrow> string list \<Rightarrow> string list" where
  "publishedTypes es ts = map snd (filter (\<lambda>(e, t). e = None) (zip es ts))"

text \<open>\<open>n\<close> invocations of \<open>done\<close>, in the order in which they get the mutex.\<close>

fun dones :: "nat \<Rightarrow> Executor \<Rightarrow> Executor \<times> effect list" where
  "dones 0 exec = (exec, [])"
| "dones (Suc n) exec =
     (case done_exec exec of
        (r, exec', t) \<Rightarrow> (case dones n exec' of (exec'', t') \<Rightarrow> (exec'', t @ t')))"

text \<open>
  The id and the pid that a registered callback of \<open>Exec\<close> holds, and the subscriptions
  that other executions have made for other children: each holds its own id and the pid
  of another child.
\<close>

fun closureId :: "nat \<times> interruptFn \<Rightarrow> nat" where
  "closureId (subId, InterruptFn pid interruptId) = interruptId"

fun closurePid :: "nat \<times> interruptFn \<Rightarrow> nat" where
  "closurePid (subId, InterruptFn pid interruptId) = pid"

definition otherChild :: "nat \<Rightarrow> nat \<times> interruptFn \<Rightarrow> bool" where
  "otherChild pid s = (closureId s = fst s \<and> closurePid s \<noteq> pid)"

text \<open>A signal sent to a process group: the target of the system call is negative.\<close>

fun toProcessGroup :: "effect \<Rightarrow> bool" where
  "toProcessGroup (Kill target s) = (target < 0)"
| "toProcessGroup _ = False"

text \<open>
  The text of an exit error as streamed: the error and a newline, after the interrupt
  marker when the flag is set.
\<close>

definition exitText :: "execenv \<Rightarrow> error \<Rightarrow> string" where
  "exitText env e =
     (if InterruptedLoad env then ''^C'' @ newline else []) @ errorString e @ newline"

text \<open>
  The publishing of an envelope succeeds: the message id is generated, the envelope is
  put into frames and the frames are sent. This is read off the results of the calls
  outside the package, not off \<open>Publish\<close>.
\<close>

definition succeeds :: "extcalls \<Rightarrow> MessageImpl \<Rightarrow> string \<Rightarrow> content \<Rightarrow> bool" where
  "succeeds x m msgType c =
     (case newV4 x of
        Inl e \<Rightarrow> False
      | Inr u \<Rightarrow>
          (case ToWireMsg x ((fst (NewComposed x msgType (Composed m)))\<lparr>Content := c\<rparr>) of
             Inl e \<Rightarrow> False
           | Inr parts \<Rightarrow> SendMulti x = None))"

text \<open>
  What a piece of output written to a writer puts on the IOPub channel: a \<open>stream\<close>
  envelope with the name of the writer's stream and the bytes as text, when the writer is
  the one to the front-end, has a message, and the publishing succeeds; nothing otherwise.
\<close>

fun streamedBy :: "writer \<Rightarrow> bytes \<Rightarrow> extcalls \<Rightarrow> (string \<times> content) list" where
  "streamedBy (GivenWriter n) p x = []"
| "streamedBy (JupyterWriter w) p x =
     (case w_msg w of
        None \<Rightarrow> []
      | Some m \<Rightarrow>
          (if succeeds x m ''stream'' (StreamContent (w_stream w) p)
           then [(''stream'', StreamContent (w_stream w) p)] else []))"

text \<open>
  The writer of a pipe during a run: the one configured, or by default the writer to the
  front-end for the executor's message, named \<open>stdout\<close> or \<open>stderr\<close>.
\<close>

definition writerOf :: "Executor \<Rightarrow> source \<Rightarrow> writer" where
  "writerOf exec src =
     (case src of
        FromStdout \<Rightarrow>
          (case stdoutWriter exec of
             None \<Rightarrow> JupyterWriter \<lparr>w_stream = ''stdout'', w_msg = Msg exec\<rparr>
           | Some w \<Rightarrow> w)
      | FromStderr \<Rightarrow>
          (case stderrWriter exec of
             None \<Rightarrow> JupyterWriter \<lparr>w_stream = ''stderr'', w_msg = Msg exec\<rparr>
           | Some w \<Rightarrow> w))"

text \<open>What the output of the child puts on the IOPub channel, piece by piece.\<close>

definition streamed ::
  "Executor \<Rightarrow> (source \<times> bytes \<times> extcalls) list \<Rightarrow> (string \<times> content) list" where
  "streamed exec cs = concat (map (\<lambda>(src, p, x). streamedBy (writerOf exec src) p x) cs)"

text \<open>The content under which the publishing functions send the data of a display.\<close>

definition displayContent :: "Data \<Rightarrow> content" where
  "displayContent data =
     DisplayContent (Data data) (EnsureMIMEMap (Metadata data)) (EnsureMIMEMap (Transient data))"

text \<open>The parts of what \<open>Exec\<close> yields.\<close>

definition resultOf :: "execResult \<times> Executor \<times> 'k \<times> effect list \<Rightarrow> execResult" where
  "resultOf r = fst r"

definition kernelOf :: "execResult \<times> Executor \<times> 'k \<times> effect list \<Rightarrow> 'k" where
  "kernelOf r = fst (snd (snd r))"

definition effectsOf :: "execResult \<times> Executor \<times> 'k \<times> effect list \<Rightarrow> effect list" where
  "effectsOf r = snd (snd (snd r))"

text \<open>Concrete inputs: calls that succeed, a request, a fresh session, a run that fails.\<close>

definition okCalls :: extcalls where
  "okCalls = \<lparr>protocolVersion = ''5.4'', timeNow = ''2023-01-01T00:00:00Z'',
     newV4 = Inr ''id'', ToWireMsg = (\<lambda>m. Inr []), SendMulti = None\<rparr>"

definition failingCalls :: extcalls where
  "failingCalls = okCalls\<lparr>SendMulti := Some (Err ''socket closed'')\<rparr>"

definition request :: MessageImpl where
  "request = \<lparr>err = None,
     Composed = zeroComposedMsg\<lparr>Header := zeroHeader\<lparr>MsgID := ''m1'', Session := ''s1'',
        Username := ''u'', MsgType := ''execute_request''\<rparr>\<rparr>,
     Identities = [''client'']\<rparr>"

definition answer :: MessageImpl where
  "answer = \<lparr>err = None,
     Composed = zeroComposedMsg\<lparr>Header := zeroHeader\<lparr>MsgID := ''m2'', Session := ''s1'',
        Username := ''u'', MsgType := ''input_reply''\<rparr>,
        Content := InputReplyContent [''value'' \<mapsto> AnyString ''42'']\<rparr>,
     Identities = [''client'']\<rparr>"

definition freshKernel :: "(nat, interruptFn) Kernel" where
  "freshKernel = \<lparr>ExecCounter = 0, KnownBlockIds = {}, stdinMsg = None, stdinFn = None,
     subscriptions = [], IOPubSocket = [], ShellSocket = [], StdinSocket = []\<rparr>"

definition withId :: "string \<Rightarrow> Data" where
  "withId d = \<lparr>Data = None, Metadata = None,
     Transient = Some [''display_id'' \<mapsto> AnyString d]\<rparr>"

definition okEnv :: execenv where
  "okEnv = \<lparr>StdoutPipe = Inr 3, StderrPipe = Inr 4, StdinPipe = Inr 5,
     handleNamedPipes = None, Start = Inr 4242, newSubscriptionId = 7,
     childOutput = [(FromStdout, ''hello'', okCalls), (FromStderr, ''oops'', okCalls)],
     streamersDone = True,
     Wait = Some (Some (Err ''exit status 1'')), InterruptedLoad = True,
     publishCalls = okCalls\<rparr>"

definition runningExecutor :: Executor where
  "runningExecutor = (UseNamedPipes (Some 1) (New (Some request) ''prog'' []))
     \<lparr>cmdStdout := Some 3, cmdStderr := Some 4, cmdStdin := Some 5, doneChan := OpenChan\<rparr>"

text \<open>The same run while the child is still running.\<close>

definition runningEnv :: execenv where
  "runningEnv = okEnv\<lparr>streamersDone := False\<rparr>"

text \<open>A completion that never comes, and one that comes after a second.\<close>

definition doneSoon :: selectenv where
  "doneSoon = \<lparr>doneClosedAfter = Some Second, bothReadyTakesDone = False\<rparr>"

definition neverDone :: selectenv where
  "neverDone = \<lparr>doneClosedAfter = None, bothReadyTakesDone = False\<rparr>"

text \<open>A session on which another execution, of the child 5000, is subscribed.\<close>

definition busyKernel :: "(nat, interruptFn) Kernel" where
  "busyKernel = SubscribeInterrupt 6 (InterruptFn 5000 6) freshKernel"

text \<open>A callback for the pending-input slot: it counts its calls in the execution counter.\<close>

definition countingCall ::
  "nat \<Rightarrow> MessageImpl \<Rightarrow> MessageImpl \<Rightarrow> (nat, interruptFn) Kernel
     \<Rightarrow> (error option \<times> (nat, interruptFn) Kernel) outcome" where
  "countingCall f original input k = Return (None, k\<lparr>ExecCounter := ExecCounter k + int f\<rparr>)"

section \<open>Properties of the messages\<close>

lemma NewComposed_MsgType: "MsgType (Header (fst (NewComposed x t parent))) = t"
  by (simp add: NewComposed_def Let_def split: sum.splits)

lemma Publish_fst: "fst (Publish x m t c k) = fst (Publish x m t c k')"
  by (simp add: Publish_def sendMessage_def Let_def split: prod.splits option.splits sum.splits)

lemma Publish_published:
  "published (IOPubSocket (snd (Publish x m t c k))) =
     published (IOPubSocket k) @ (if fst (Publish x m t c k) = None then [(t, c)] else [])"
  using NewComposed_MsgType[of x t "Composed m"]
  by (auto simp add: Publish_def Let_def published_def sendMessage_def
      split: prod.splits option.splits sum.splits)

lemma Publish_sentTypes:
  "sentTypes (IOPubSocket (snd (Publish x m t c k))) =
     sentTypes (IOPubSocket k) @ (if fst (Publish x m t c k) = None then [t] else [])"
  using NewComposed_MsgType[of x t "Composed m"]
  by (auto simp add: Publish_def Let_def sentTypes_def sendMessage_def
      split: prod.splits option.splits sum.splits)

lemma Publish_others:
  "snd (Publish x m t c k) = k\<lparr>IOPubSocket := IOPubSocket (snd (Publish x m t c k))\<rparr>"
  by (simp add: Publish_def Let_def split: prod.splits option.splits)

lemma Publish_KnownBlockIds: "KnownBlockIds (snd (Publish x m t c k)) = KnownBlockIds k"
  by (simp add: Publish_def Let_def split: prod.splits option.splits)

lemma Publish_parent:
  "Publish x m t c k = (None, k') \<Longrightarrow>
     \<exists>msg frames. IOPubSocket k' = IOPubSocket k @ [(msg, frames)] \<and>
        ParentHeader msg = Header (Composed m) \<and>
        Session (Header msg) = Session (Header (Composed m))"
  by (auto simp add: Publish_def NewComposed_def sendMessage_def Let_def
      split: prod.splits option.splits sum.splits)

text \<open>
  Claim C6. Whatever the parent message and the message type, and whether or not the
  generation of the message id fails, the envelope that \<open>NewComposed\<close> returns has the
  parent's header as its parent header, and the session id and the user name of its own
  header are those of the parent's header.
\<close>

theorem NewComposed_parent_header:
  "ParentHeader (fst (NewComposed x msgType parent)) = Header parent \<and>
   Session (Header (fst (NewComposed x msgType parent))) = Session (Header parent) \<and>
   Username (Header (fst (NewComposed x msgType parent))) = Username (Header parent)"
  by (simp add: NewComposed_def Let_def split: sum.splits)

lemma Publish_succeeds: "fst (Publish x m t c k) = None \<longleftrightarrow> succeeds x m t c"
  by (simp add: Publish_def succeeds_def sendMessage_def NewComposed_def Let_def
      split: prod.splits option.splits sum.splits)

lemma Publish_failure:
  "\<not> succeeds x m t c \<Longrightarrow> \<exists>e. Publish x m t c k = (Some e, k)"
  by (auto simp add: Publish_def succeeds_def sendMessage_def NewComposed_def Let_def
      split: prod.splits option.splits sum.splits)

lemma Publish_success:
  "succeeds x m t c \<Longrightarrow>
     \<exists>envelope frames.
        Publish x m t c k = (None, k\<lparr>IOPubSocket := IOPubSocket k @ [(envelope, frames)]\<rparr>) \<and>
        MsgType (Header envelope) = t \<and> Content envelope = c \<and>
        ParentHeader envelope = Header (Composed m)"
  by (auto simp add: Publish_def succeeds_def sendMessage_def NewComposed_def Let_def
      split: prod.splits option.splits sum.splits)

text \<open>
  Claim C8. For a message that is not nil and any data, \<open>PublishData\<close> is the publishing
  of the data (with metadata and transient made non-nil) under the type \<open>display_data\<close>.
  When the publishing succeeds it returns nil, and the session differs only in that one
  envelope was sent on the IOPub socket: its type is \<open>display_data\<close>, its content the
  data, its parent the message. When the publishing fails it returns the error and the
  session is as it was. The type of the parent message plays no part: all of this holds
  for every message \<open>m\<close>.
\<close>

theorem PublishData_display_data:
  "PublishData x (Some m) data k =
     Return (Publish x m ''display_data'' (displayContent data) k) \<and>
   (succeeds x m ''display_data'' (displayContent data) \<longrightarrow>
      (\<exists>envelope frames.
         PublishData x (Some m) data k =
           Return (None, k\<lparr>IOPubSocket := IOPubSocket k @ [(envelope, frames)]\<rparr>) \<and>
         MsgType (Header envelope) = ''display_data'' \<and>
         Content envelope = displayContent data \<and>
         ParentHeader envelope = Header (Composed m))) \<and>
   (\<not> succeeds x m ''display_data'' (displayContent data) \<longrightarrow>
      (\<exists>e. PublishData x (Some m) data k = Return (Some e, k)))"
proof (intro conjI impI)
  show p: "PublishData x (Some m) data k =
     Return (Publish x m ''display_data'' (displayContent data) k)"
    by (simp add: PublishData_def PublishDisplayData_def displayContent_def)
  {
    assume "succeeds x m ''display_data'' (displayContent data)"
    from Publish_success[OF this, of k] show "\<exists>envelope frames.
         PublishData x (Some m) data k =
           Return (None, k\<lparr>IOPubSocket := IOPubSocket k @ [(envelope, frames)]\<rparr>) \<and>
         MsgType (Header envelope) = ''display_data'' \<and>
         Content envelope = displayContent data \<and>
         ParentHeader envelope = Header (Composed m)"
      unfolding p by auto
  }
  {
    assume "\<not> succeeds x m ''display_data'' (displayContent data)"
    from Publish_failure[OF this, of k]
    show "\<exists>e. PublishData x (Some m) data k = Return (Some e, k)"
      unfolding p by auto
  }
qed

theorem PublishData_display_data_witness:
  "succeeds okCalls request ''display_data'' (displayContent (withId ''a'')) \<and>
   MsgType (Header (Composed request)) = ''execute_request'' \<and>
   (\<exists>k'. PublishData okCalls (Some request) (withId ''a'') freshKernel = Return (None, k') \<and>
      published (IOPubSocket k') = [(''display_data'', displayContent (withId ''a''))]) \<and>
   succeeds okCalls answer ''display_data'' (displayContent (withId ''a'')) \<and>
   MsgType (Header (Composed answer)) = ''input_reply'' \<and>
   (\<exists>k'. PublishData okCalls (Some answer) (withId ''a'') freshKernel = Return (None, k') \<and>
      published (IOPubSocket k') = [(''display_data'', displayContent (withId ''a''))]) \<and>
   \<not> succeeds failingCalls request ''display_data'' (displayContent (withId ''a'')) \<and>
   (\<exists>e. PublishData failingCalls (Some request) (withId ''a'') freshKernel
           = Return (Some e, freshKernel))"
proof -
  have s1: "succeeds okCalls request ''display_data'' (displayContent (withId ''a''))"
    and s2: "succeeds okCalls answer ''display_data'' (displayContent (withId ''a''))"
    and s3: "\<not> succeeds failingCalls request ''display_data'' (displayContent (withId ''a''))"
    by (simp_all add: succeeds_def okCalls_def failingCalls_def)
  have t1: "MsgType (Header (Composed request)) = ''execute_request''"
    and t2: "MsgType (Header (Composed answer)) = ''input_reply''"
    by (simp_all add: request_def answer_def)
  note a = PublishData_display_data[where x = okCalls and m = request and data = "withId ''a''"
      and k = freshKernel, THEN conjunct2, THEN conjunct1, rule_format, OF s1]
  note b = PublishData_display_data[where x = okCalls and m = answer and data = "withId ''a''"
      and k = freshKernel, THEN conjunct2, THEN conjunct1, rule_format, OF s2]
  note c = PublishData_display_data[where x = failingCalls and m = request
      and data = "withId ''a''" and k = freshKernel, THEN conjunct2, THEN conjunct2,
      rule_format, OF s3]
  have p1: "\<exists>k'. PublishData okCalls (Some request) (withId ''a'') freshKernel = Return (None, k') \<and>
      published (IOPubSocket k') = [(''display_data'', displayContent (withId ''a''))]"
    using a by (auto simp add: published_def freshKernel_def)
  have p2: "\<exists>k'. PublishData okCalls (Some answer) (withId ''a'') freshKernel = Return (None, k') \<and>
      published (IOPubSocket k') = [(''display_data'', displayContent (withId ''a''))]"
    using b by (auto simp add: published_def freshKernel_def)
  show ?thesis by (intro conjI s1 s2 s3 t1 t2 p1 p2 c)
qed

text \<open>
  Claim C9. When the transient map of the data has no \<open>display_id\<close> key (a nil map has
  none), or has one whose value is not a string, \<open>PublishUpdateDisplayData\<close> returns an
  error and the session is as it was: nothing was sent on any socket and the set of known
  ids is unchanged. This holds for every message, the nil one included.
\<close>

theorem PublishUpdateDisplayData_error:
  assumes "mapIndex (Transient data) ''display_id'' = None \<or>
     (\<exists>v. mapIndex (Transient data) ''display_id'' = Some v \<and> (\<forall>d. v \<noteq> AnyString d))"
  shows "\<exists>e. PublishUpdateDisplayData x m data k = Return (Some e, k)"
  using assms
  by (auto simp add: PublishUpdateDisplayData_def split: option.splits any.splits)

theorem PublishUpdateDisplayData_error_witness:
  "(mapIndex (Transient (withId ''a''\<lparr>Transient := Some [''display_id'' \<mapsto> AnyInt 3]\<rparr>))
       ''display_id'' = None \<or>
    (\<exists>v. mapIndex (Transient (withId ''a''\<lparr>Transient := Some [''display_id'' \<mapsto> AnyInt 3]\<rparr>))
            ''display_id'' = Some v \<and> (\<forall>d. v \<noteq> AnyString d))) \<and>
   (\<exists>e. PublishUpdateDisplayData okCalls (Some request)
           (withId ''a''\<lparr>Transient := Some [''display_id'' \<mapsto> AnyInt 3]\<rparr>) freshKernel
         = Return (Some e, freshKernel))"
proof -
  let ?data = "withId ''a''\<lparr>Transient := Some [''display_id'' \<mapsto> AnyInt 3]\<rparr>"
  have h: "mapIndex (Transient ?data) ''display_id'' = None \<or>
     (\<exists>v. mapIndex (Transient ?data) ''display_id'' = Some v \<and> (\<forall>d. v \<noteq> AnyString d))"
    by (simp add: mapIndex_def)
  from PublishUpdateDisplayData_error[OF h, of okCalls "Some request" freshKernel] h
  show ?thesis by blast
qed

text \<open>
  Claim C10. For every byte slice \<open>p\<close>, \<open>Write\<close> returns the length of \<open>p\<close> and a nil
  error, whatever the publishing of the data met.
\<close>

theorem Write_returns_length:
  "fst (Write x w p k) = (int (length p), None)"
  by (simp add: Write_def Let_def split: prod.splits)

lemma PublishUpdateDisplayData_step:
  assumes "mapIndex (Transient data) ''display_id'' = Some (AnyString d)"
  shows "\<exists>e k'. PublishUpdateDisplayData x (Some m) data k = Return (e, k') \<and>
     KnownBlockIds k' = insert d (KnownBlockIds k) \<and>
     sentTypes (IOPubSocket k') = sentTypes (IOPubSocket k) @
       (if e = None
        then [if d \<in> KnownBlockIds k then ''update_display_data'' else ''display_data'']
        else [])"
proof -
  let ?t = "if d \<in> KnownBlockIds k then ''update_display_data'' else ''display_data''"
  let ?c = "DisplayContent (Data data) (EnsureMIMEMap (Metadata data)) (Transient data)"
  let ?k = "k\<lparr>KnownBlockIds := insert d (KnownBlockIds k)\<rparr>"
  let ?r = "Publish x m ?t ?c ?k"
  have "PublishUpdateDisplayData x (Some m) data k = Return ?r"
    using assms by (simp add: PublishUpdateDisplayData_def insert_absorb)
  then have "PublishUpdateDisplayData x (Some m) data k = Return (fst ?r, snd ?r)"
    by (simp only: prod.collapse)
  moreover have "KnownBlockIds (snd ?r) = insert d (KnownBlockIds k)"
    by (simp add: Publish_KnownBlockIds)
  moreover have "sentTypes (IOPubSocket (snd ?r)) =
      sentTypes (IOPubSocket k) @ (if fst ?r = None then [?t] else [])"
    using Publish_sentTypes[of x m ?t ?c ?k] by simp
  ultimately show ?thesis by blast
qed

lemma calls_on_known_id:
  assumes "list_all (carries d) cs" and "d \<in> KnownBlockIds k"
  shows "\<exists>es k'. callsPublishUpdateDisplayData cs k = Return (es, k') \<and>
     length es = length cs \<and> KnownBlockIds k' = KnownBlockIds k \<and>
     sentTypes (IOPubSocket k') = sentTypes (IOPubSocket k) @
        publishedTypes es (replicate (length cs) ''update_display_data'')"
  using assms
proof (induction cs arbitrary: k)
  case Nil
  then show ?case by (simp add: publishedTypes_def)
next
  case (Cons c cs)
  obtain x mo data where c: "c = (x, mo, data)" by (cases c)
  from Cons.prems c obtain m where m: "mo = Some m"
    and did: "mapIndex (Transient data) ''display_id'' = Some (AnyString d)"
    by (auto simp: carries_def)
  from PublishUpdateDisplayData_step[OF did, of x m k] Cons.prems(2) obtain e k1 where
    s: "PublishUpdateDisplayData x (Some m) data k = Return (e, k1)"
    and k1: "KnownBlockIds k1 = KnownBlockIds k"
    and t1: "sentTypes (IOPubSocket k1) = sentTypes (IOPubSocket k) @
               (if e = None then [''update_display_data''] else [])"
    by (auto simp: insert_absorb)
  from Cons.prems have "list_all (carries d) cs" by simp
  moreover have "d \<in> KnownBlockIds k1" using k1 Cons.prems(2) by simp
  ultimately obtain es k2 where
    r: "callsPublishUpdateDisplayData cs k1 = Return (es, k2)" and l: "length es = length cs"
    and k2: "KnownBlockIds k2 = KnownBlockIds k1"
    and t2: "sentTypes (IOPubSocket k2) = sentTypes (IOPubSocket k1) @
        publishedTypes es (replicate (length cs) ''update_display_data'')"
    using Cons.IH[of k1] by blast
  have "callsPublishUpdateDisplayData (c # cs) k = Return (e # es, k2)"
    using c m s r by simp
  moreover have "sentTypes (IOPubSocket k2) = sentTypes (IOPubSocket k) @
        publishedTypes (e # es) (replicate (length (c # cs)) ''update_display_data'')"
    using t1 t2 by (simp add: publishedTypes_def)
  ultimately show ?case using l k1 k2 by simp
qed

text \<open>
  Claim C4. On a session whose set of known ids is empty, a sequence of calls of
  \<open>PublishUpdateDisplayData\<close> that all carry the display id \<open>d\<close> returns; the first call
  adds \<open>d\<close> to the set; the types of the envelopes published are, call by call,
  \<open>display_data\<close> for the first and \<open>update_display_data\<close> for every later one, a call
  whose publishing fails contributing nothing.
\<close>

theorem update_display_types:
  assumes fresh: "KnownBlockIds k = {}"
    and same: "list_all (carries d) cs"
  shows "\<exists>es k'. callsPublishUpdateDisplayData cs k = Return (es, k') \<and>
     length es = length cs \<and>
     KnownBlockIds k' = (if cs = [] then {} else {d}) \<and>
     sentTypes (IOPubSocket k') = sentTypes (IOPubSocket k) @
        publishedTypes es (expectedTypes (length cs))"
proof (cases cs)
  case Nil
  then show ?thesis using fresh by (simp add: publishedTypes_def)
next
  case (Cons c cs')
  obtain x mo data where c: "c = (x, mo, data)" by (cases c)
  from same Cons c obtain m where m: "mo = Some m"
    and did: "mapIndex (Transient data) ''display_id'' = Some (AnyString d)"
    by (auto simp: carries_def)
  from PublishUpdateDisplayData_step[OF did, of x m k] fresh obtain e k1 where
    s: "PublishUpdateDisplayData x (Some m) data k = Return (e, k1)"
    and k1: "KnownBlockIds k1 = {d}"
    and t1: "sentTypes (IOPubSocket k1) = sentTypes (IOPubSocket k) @
               (if e = None then [''display_data''] else [])"
    by auto
  from same Cons have "list_all (carries d) cs'" by simp
  moreover have "d \<in> KnownBlockIds k1" using k1 by simp
  ultimately obtain es k2 where
    r: "callsPublishUpdateDisplayData cs' k1 = Return (es, k2)" and l: "length es = length cs'"
    and k2: "KnownBlockIds k2 = KnownBlockIds k1"
    and t2: "sentTypes (IOPubSocket k2) = sentTypes (IOPubSocket k1) @
        publishedTypes es (replicate (length cs') ''update_display_data'')"
    using calls_on_known_id[of d cs' k1] by blast
  have "callsPublishUpdateDisplayData cs k = Return (e # es, k2)"
    using Cons c m s r by simp
  moreover have "sentTypes (IOPubSocket k2) = sentTypes (IOPubSocket k) @
        publishedTypes (e # es) (expectedTypes (length cs))"
    using t1 t2 Cons by (simp add: publishedTypes_def)
  ultimately show ?thesis using l k1 k2 Cons by simp
qed

theorem update_display_types_witness:
  "KnownBlockIds freshKernel = {} \<and>
   list_all (carries ''a'') (replicate 3 (okCalls, Some request, withId ''a'')) \<and>
   (\<exists>k'. callsPublishUpdateDisplayData (replicate 3 (okCalls, Some request, withId ''a''))
            freshKernel = Return ([None, None, None], k') \<and>
      KnownBlockIds k' = {''a''} \<and>
      sentTypes (IOPubSocket k') =
        [''display_data'', ''update_display_data'', ''update_display_data''])"
proof -
  let ?cs = "replicate 3 (okCalls, Some request, withId ''a'')"
  have f: "KnownBlockIds freshKernel = {}" by (simp add: freshKernel_def)
  have c: "list_all (carries ''a'') ?cs"
    by (simp add: carries_def withId_def mapIndex_def list_all_length)
  from update_display_types[OF f c] obtain es k' where
    r: "callsPublishUpdateDisplayData ?cs freshKernel = Return (es, k')"
    and i: "KnownBlockIds k' = (if ?cs = [] then {} else {''a''})"
    and t: "sentTypes (IOPubSocket k') =
              sentTypes (IOPubSocket freshKernel) @
              publishedTypes es (expectedTypes (length ?cs))"
    by blast
  have es: "es = [None, None, None]"
    using r by (simp add: numeral_3_eq_3 PublishUpdateDisplayData_def withId_def mapIndex_def
        freshKernel_def Publish_def NewComposed_def okCalls_def sendMessage_def Let_def)
  have "sentTypes (IOPubSocket k') =
          [''display_data'', ''update_display_data'', ''update_display_data'']"
    using t es by (simp add: publishedTypes_def freshKernel_def sentTypes_def numeral_3_eq_3)
  moreover have "KnownBlockIds k' = {''a''}" using i by simp
  ultimately show ?thesis using f c r es by blast
qed

lemma PromptInput_failure:
  "fst (PromptInput x m prompt password onInput k) \<noteq> None \<Longrightarrow>
     stdinMsg (snd (PromptInput x m prompt password onInput k)) = stdinMsg k \<and>
     stdinFn (snd (PromptInput x m prompt password onInput k)) = stdinFn k \<and>
     StdinSocket (snd (PromptInput x m prompt password onInput k)) = StdinSocket k"
  by (auto simp add: PromptInput_def NewComposed_def sendMessage_def Let_def
      split: prod.splits option.splits sum.splits)

text \<open>
  Claim C7. The session has one slot for a pending input. When \<open>PromptInput\<close> returns no
  error, it has sent one \<open>input_request\<close> envelope (with the prompt and the password flag,
  and the requesting message as parent) on the stdin socket, and the slot holds the
  requesting message and the callback, whatever it held before. \<open>DeliverInput\<close> returns
  nil and leaves the session alone when the slot holds no message; when it holds a
  message and a callback, \<open>DeliverInput\<close> is exactly the call of that callback on the
  requesting message and the answer: the session afterwards is the one the callback
  leaves, so the slot is cleared only if the callback clears it.
\<close>

theorem pending_input_single_slot:
  "(fst (PromptInput x m prompt password onInput k) = None \<longrightarrow>
      stdinMsg (snd (PromptInput x m prompt password onInput k)) = Some m \<and>
      stdinFn (snd (PromptInput x m prompt password onInput k)) = onInput \<and>
      (\<exists>inputRequest frames.
         StdinSocket (snd (PromptInput x m prompt password onInput k)) =
           StdinSocket k @ [(inputRequest, frames)] \<and>
         MsgType (Header inputRequest) = ''input_request'' \<and>
         ParentHeader inputRequest = Header (Composed m) \<and>
         Content inputRequest = InputRequestContent prompt password)) \<and>
   (stdinMsg k = None \<longrightarrow> DeliverInput call input k = Return (None, k)) \<and>
   (stdinMsg k = Some original \<and> stdinFn k = Some f \<longrightarrow>
      DeliverInput call input k = call f original input k)"
  by (auto simp add: PromptInput_def DeliverInput_def NewComposed_def sendMessage_def Let_def
      split: prod.splits option.splits sum.splits)

theorem pending_input_single_slot_witness:
  "fst (PromptInput okCalls request ''? '' False (Some 1) freshKernel) = None \<and>
   fst (PromptInput okCalls answer ''? '' True (Some 2)
          (snd (PromptInput okCalls request ''? '' False (Some 1) freshKernel))) = None \<and>
   stdinMsg (snd (PromptInput okCalls answer ''? '' True (Some 2)
          (snd (PromptInput okCalls request ''? '' False (Some 1) freshKernel)))) = Some answer \<and>
   stdinFn (snd (PromptInput okCalls answer ''? '' True (Some 2)
          (snd (PromptInput okCalls request ''? '' False (Some 1) freshKernel)))) = Some 2 \<and>
   stdinMsg freshKernel = None \<and>
   DeliverInput countingCall answer freshKernel = Return (None, freshKernel) \<and>
   stdinMsg (freshKernel\<lparr>stdinMsg := Some request, stdinFn := Some 2\<rparr>) = Some request \<and>
   stdinFn (freshKernel\<lparr>stdinMsg := Some request, stdinFn := Some 2\<rparr>) = Some 2 \<and>
   DeliverInput countingCall answer (freshKernel\<lparr>stdinMsg := Some request, stdinFn := Some 2\<rparr>) =
     Return (None, freshKernel\<lparr>stdinMsg := Some request, stdinFn := Some 2, ExecCounter := 2\<rparr>)"
proof -
  let ?k1 = "snd (PromptInput okCalls request ''? '' False (Some 1) freshKernel)"
  let ?k = "freshKernel\<lparr>stdinMsg := Some request, stdinFn := Some 2\<rparr>"
  have a: "fst (PromptInput okCalls request ''? '' False (Some 1) freshKernel) = None"
    by (simp add: PromptInput_def NewComposed_def sendMessage_def okCalls_def Let_def)
  have b: "fst (PromptInput okCalls answer ''? '' True (Some 2) ?k1) = None"
    by (simp add: PromptInput_def NewComposed_def sendMessage_def okCalls_def Let_def)
  have c: "stdinMsg freshKernel = None" by (simp add: freshKernel_def)
  have d: "stdinMsg ?k = Some request \<and> stdinFn ?k = Some 2" by simp
  note p = pending_input_single_slot[where x = okCalls and m = answer and prompt = "''? ''"
      and password = True and onInput = "Some 2" and k = ?k1, THEN conjunct1, rule_format, OF b]
  note q = pending_input_single_slot[where k = freshKernel and call = countingCall
      and input = answer, THEN conjunct2, THEN conjunct1, rule_format, OF c]
  note r = pending_input_single_slot[where k = ?k and original = request and f = 2
      and call = countingCall and input = answer, THEN conjunct2, THEN conjunct2,
      rule_format, OF d]
  have e: "countingCall 2 request answer ?k =
     Return (None, freshKernel\<lparr>stdinMsg := Some request, stdinFn := Some 2, ExecCounter := 2\<rparr>)"
    by (simp add: countingCall_def freshKernel_def)
  have "stdinMsg (snd (PromptInput okCalls answer ''? '' True (Some 2) ?k1)) = Some answer"
    and "stdinFn (snd (PromptInput okCalls answer ''? '' True (Some 2) ?k1)) = Some 2"
    using p by (rule conjunct1, rule conjunct2[THEN conjunct1])
  moreover have "DeliverInput countingCall answer ?k =
     Return (None, freshKernel\<lparr>stdinMsg := Some request, stdinFn := Some 2, ExecCounter := 2\<rparr>)"
    using r e by (simp only:)
  ultimately show ?thesis using a b c d q by (intro conjI) (simp_all only:)
qed

section \<open>Properties of the executor\<close>

subsection \<open>Teardown\<close>

lemma done_exec_isDone: "isDone exec \<Longrightarrow> done_exec exec = (Return (), exec, [])"
  by (simp add: done_exec_def)

lemma done_exec_nil_stdin:
  "\<not> isDone exec \<Longrightarrow> millisecondsToInput exec \<le> 0 \<or> Msg exec \<noteq> None \<Longrightarrow>
   cmdStdin exec = None \<Longrightarrow>
     done_exec exec = (Panic, exec\<lparr>isDone := True\<rparr>, [])"
  by (auto simp add: done_exec_def setIsDone_def cancelInput_def closePipe_def)

lemma done_exec_running:
  "\<not> isDone exec \<Longrightarrow> millisecondsToInput exec \<le> 0 \<or> Msg exec \<noteq> None \<Longrightarrow>
   cmdStdin exec = Some a \<Longrightarrow> doneChan exec = OpenChan \<Longrightarrow> cmdStderr exec = Some b \<Longrightarrow>
   cmdStdout exec = Some c \<Longrightarrow>
     done_exec exec = (Return (), exec\<lparr>isDone := True, doneChan := ClosedChan\<rparr>,
       [Close a, CloseDoneChan, Close b, Close c] @
       (if useNamedPipes exec \<and> commsHandler exec \<noteq> None then [ProgramFinished] else []))"
  by (auto simp add: done_exec_def setIsDone_def cancelInput_def closePipe_def closeDoneChan_def
      programFinished_def)

lemma dones_after: "isDone exec \<Longrightarrow> dones n exec = (exec, [])"
  by (induction n) (simp_all add: done_exec_isDone)

lemma steps_of_done:
  "steps [setIsDone, cancelInput, closePipe cmdStdin, closeDoneChan,
          closePipe cmdStderr, closePipe cmdStdout, programFinished] exec = (r, exec', t) \<Longrightarrow>
   isDone exec' \<and> count_list t CloseDoneChan \<le> 1 \<and> count_list t ProgramFinished \<le> 1 \<and>
   (r = Return () \<longrightarrow> count_list t CloseDoneChan = 1 \<and> doneChan exec' = ClosedChan \<and>
      count_list t ProgramFinished =
        (if useNamedPipes exec \<and> commsHandler exec \<noteq> None then 1 else 0))"
  by (auto simp add: setIsDone_def cancelInput_def closePipe_def closeDoneChan_def
      programFinished_def split: if_splits option.splits chan.splits)

text \<open>
  Claim C5. Whatever the executor, after one invocation of \<open>done\<close> the flag is set and a
  further invocation returns at once, with no effect and no change; so any number of
  invocations, one after another as the mutex orders them, have the effects and the final
  state of the first alone. The completion channel is closed at most once and the comms
  handler is told at most once; and when the first invocation finds the flag unset and
  does not panic, the channel is closed exactly once and the handler is told exactly once
  if named pipes are in use with a handler, and not at all otherwise.
\<close>

theorem done_runs_once:
  "(case done_exec exec of
      (r, exec', t) \<Rightarrow>
        isDone exec' \<and>
        done_exec exec' = (Return (), exec', []) \<and>
        dones (Suc n) exec = (exec', t) \<and>
        count_list t CloseDoneChan \<le> 1 \<and> count_list t ProgramFinished \<le> 1 \<and>
        (\<not> isDone exec \<and> r = Return () \<longrightarrow>
           count_list t CloseDoneChan = 1 \<and> doneChan exec' = ClosedChan \<and>
           count_list t ProgramFinished =
             (if useNamedPipes exec \<and> commsHandler exec \<noteq> None then 1 else 0)))"
proof (cases "isDone exec")
  case True
  then show ?thesis by (simp add: done_exec_isDone dones_after)
next
  case False
  obtain r exec' t where d: "done_exec exec = (r, exec', t)" by (cases "done_exec exec")
  with False have s: "steps [setIsDone, cancelInput, closePipe cmdStdin, closeDoneChan,
          closePipe cmdStderr, closePipe cmdStdout, programFinished] exec = (r, exec', t)"
    by (simp add: done_exec_def)
  note f = steps_of_done[OF s]
  from f have i: "isDone exec'" by simp
  then have "done_exec exec' = (Return (), exec', [])" by (rule done_exec_isDone)
  moreover have "dones (Suc n) exec = (exec', t)" using d i by (simp add: dones_after)
  ultimately show ?thesis using d f by simp
qed

theorem done_runs_once_witness:
  "\<not> isDone runningExecutor \<and>
   done_exec runningExecutor =
     (Return (), runningExecutor\<lparr>isDone := True, doneChan := ClosedChan\<rparr>,
      [Close 5, CloseDoneChan, Close 4, Close 3, ProgramFinished]) \<and>
   dones (Suc 2) runningExecutor =
     (runningExecutor\<lparr>isDone := True, doneChan := ClosedChan\<rparr>,
      [Close 5, CloseDoneChan, Close 4, Close 3, ProgramFinished]) \<and>
   count_list [Close 5, CloseDoneChan, Close 4, Close 3, ProgramFinished] CloseDoneChan = 1 \<and>
   count_list [Close 5, CloseDoneChan, Close 4, Close 3, ProgramFinished] ProgramFinished = 1"
proof -
  have a: "\<not> isDone runningExecutor"
    by (simp add: runningExecutor_def UseNamedPipes_def New_def)
  have f: "millisecondsToInput runningExecutor \<le> 0 \<or> Msg runningExecutor \<noteq> None"
    "cmdStdin runningExecutor = Some 5" "doneChan runningExecutor = OpenChan"
    "cmdStderr runningExecutor = Some 4" "cmdStdout runningExecutor = Some 3"
    "useNamedPipes runningExecutor \<and> commsHandler runningExecutor \<noteq> None"
    by (simp_all add: runningExecutor_def UseNamedPipes_def New_def)
  have d: "done_exec runningExecutor =
     (Return (), runningExecutor\<lparr>isDone := True, doneChan := ClosedChan\<rparr>,
      [Close 5, CloseDoneChan, Close 4, Close 3, ProgramFinished])"
    using done_exec_running[OF a f(1-5)] f(6) by simp
  note w = done_runs_once[where exec = runningExecutor and n = 2, unfolded d prod.case]
  have e: "dones (Suc 2) runningExecutor =
     (runningExecutor\<lparr>isDone := True, doneChan := ClosedChan\<rparr>,
      [Close 5, CloseDoneChan, Close 4, Close 3, ProgramFinished])"
    using w by (rule conjunct2[THEN conjunct2, THEN conjunct1])
  have g: "\<not> isDone runningExecutor \<and> Return () = Return ()"
    using a by simp
  note h = w[THEN conjunct2, THEN conjunct2, THEN conjunct2, THEN conjunct2, THEN conjunct2,
      rule_format, OF g]
  have c: "count_list [Close 5, CloseDoneChan, Close 4, Close 3, ProgramFinished] CloseDoneChan = 1"
    "count_list [Close 5, CloseDoneChan, Close 4, Close 3, ProgramFinished] ProgramFinished = 1"
    using h f(6) by simp_all
  show ?thesis by (intro conjI a d e c)
qed

subsection \<open>Failures of the setup\<close>

lemma Exec_body_stdout_fails:
  "StdoutPipe env = Inl e \<Longrightarrow> Exec_body env exec k =
   (Returns (Some (WithMessagef e ''failed to create pipe for stdout'')),
    exec\<lparr>isDone := False, doneChan := OpenChan,
       cmd := Some \<lparr>Path = command exec, Args = args exec, Dir = dir exec, Process = None\<rparr>,
       cmdStdout := None\<rparr>, k, [])"
  by (simp add: Exec_body_def Let_def)

lemma Exec_body_stderr_fails:
  "StdoutPipe env = Inr h1 \<Longrightarrow> StderrPipe env = Inl e \<Longrightarrow> Exec_body env exec k =
   (Returns (Some (WithMessagef e ''failed to create pipe for stderr'')),
    exec\<lparr>isDone := False, doneChan := OpenChan,
       cmd := Some \<lparr>Path = command exec, Args = args exec, Dir = dir exec, Process = None\<rparr>,
       cmdStdout := Some h1, cmdStderr := None\<rparr>, k, [])"
  by (simp add: Exec_body_def Let_def)

lemma Exec_body_stdin_fails:
  "StdoutPipe env = Inr h1 \<Longrightarrow> StderrPipe env = Inr h2 \<Longrightarrow> StdinPipe env = Inl e \<Longrightarrow>
   Exec_body env exec k =
   (Returns (Some (WithMessagef e ''failed to create pipe for stdin'')),
    exec\<lparr>isDone := False, doneChan := OpenChan,
       cmd := Some \<lparr>Path = command exec, Args = args exec, Dir = dir exec, Process = None\<rparr>,
       cmdStdout := Some h1, cmdStderr := Some h2, cmdStdin := None\<rparr>, k, [])"
  by (simp add: Exec_body_def Let_def)

lemma Exec_panics:
  "Exec_body env exec k = (Returns r, exec', k', t) \<Longrightarrow>
   done_exec exec' = (Panic, exec'', t') \<Longrightarrow> fst (Exec env exec k) = Panics"
  by (simp add: Exec_def)

text \<open>
  Claim C1. The claim holds where the spawning fails and the teardown does not need a
  message that is nil (\<open>Exec_start_fails\<close> below), and fails where a pipe cannot be
  created: on an executor made by \<open>New\<close>, when the creation of the
  stdout pipe, of the stderr pipe or of the stdin pipe fails, the body returns the error,
  the deferred teardown then calls \<open>Close\<close> on the stdin field, which is nil, and \<open>Exec\<close>
  panics instead of returning the error.
\<close>

theorem Exec_pipe_failure_panics:
  "fst (Exec (env\<lparr>StdoutPipe := Inl e\<rparr>) (New m c as) k) = Panics \<and>
   fst (Exec (env\<lparr>StdoutPipe := Inr h1, StderrPipe := Inl e\<rparr>) (New m c as) k) = Panics \<and>
   fst (Exec (env\<lparr>StdoutPipe := Inr h1, StderrPipe := Inr h2, StdinPipe := Inl e\<rparr>)
          (New m c as) k) = Panics"
proof (intro conjI)
  show "fst (Exec (env\<lparr>StdoutPipe := Inl e\<rparr>) (New m c as) k) = Panics"
    by (rule Exec_panics[OF Exec_body_stdout_fails done_exec_nil_stdin])
      (simp_all add: New_def)
  show "fst (Exec (env\<lparr>StdoutPipe := Inr h1, StderrPipe := Inl e\<rparr>) (New m c as) k) = Panics"
    by (rule Exec_panics[OF Exec_body_stderr_fails done_exec_nil_stdin])
      (simp_all add: New_def)
  show "fst (Exec (env\<lparr>StdoutPipe := Inr h1, StderrPipe := Inr h2, StdinPipe := Inl e\<rparr>)
          (New m c as) k) = Panics"
    by (rule Exec_panics[OF Exec_body_stdin_fails done_exec_nil_stdin])
      (simp_all add: New_def)
qed

text \<open>
  When the three pipes exist and the start of the child fails, \<open>Exec\<close> returns the error
  of the start, wrapped, and no child was started; the teardown closes the three pipe
  ends.
\<close>

lemma Exec_started_start_fails:
  assumes "(if useNamedPipes exec then handleNamedPipes env else None) = None"
    and "Start env = Inl e"
  shows "\<exists>exec' t. Exec_started env exec k =
       (Returns (Some (WithMessagef e
          (''failed to start to execute command '' @ quoted (command exec)))), exec', k, t) \<and>
     isDone exec' = isDone exec \<and> doneChan exec' = doneChan exec \<and>
     cmdStdin exec' = cmdStdin exec \<and> cmdStdout exec' = cmdStdout exec \<and>
     cmdStderr exec' = cmdStderr exec \<and> Msg exec' = Msg exec \<and>
     millisecondsToInput exec' = millisecondsToInput exec \<and>
     (\<forall>pid. StartChild pid \<notin> set t)"
  using assms
  by (cases "useNamedPipes exec") (simp_all add: Exec_started_def Let_def)

lemma Exec_start_fails:
  assumes "StdoutPipe env = Inr out" and "StderrPipe env = Inr errPipe"
    and "StdinPipe env = Inr inPipe"
    and "(if useNamedPipes exec then handleNamedPipes env else None) = None"
    and "Start env = Inl e"
    and "millisecondsToInput exec \<le> 0 \<or> Msg exec \<noteq> None"
  shows "case Exec env exec k of
     (r, exec', k', t) \<Rightarrow>
        r = Returns (Some (WithMessagef e
              (''failed to start to execute command '' @ quoted (command exec)))) \<and>
        k' = k \<and> (\<forall>pid. StartChild pid \<notin> set t) \<and>
        isDone exec' \<and> doneChan exec' = ClosedChan"
proof -
  let ?exec = "exec\<lparr>isDone := False, doneChan := OpenChan,
       cmd := Some \<lparr>Path = command exec, Args = args exec, Dir = dir exec, Process = None\<rparr>,
       cmdStdout := Some out, cmdStderr := Some errPipe, cmdStdin := Some inPipe\<rparr>"
  have b: "Exec_body env exec k = Exec_started env ?exec k"
    using assms(1-3) by (simp add: Exec_body_def Let_def)
  have "(if useNamedPipes ?exec then handleNamedPipes env else None) = None"
    using assms(4) by simp
  from Exec_started_start_fails[OF this assms(5), of k] obtain exec' t where
    s: "Exec_started env ?exec k = (Returns (Some (WithMessagef e
              (''failed to start to execute command '' @ quoted (command ?exec)))), exec', k, t)"
    and e: "isDone exec' = isDone ?exec" "doneChan exec' = doneChan ?exec"
      "cmdStdin exec' = cmdStdin ?exec" "cmdStdout exec' = cmdStdout ?exec"
      "cmdStderr exec' = cmdStderr ?exec" "Msg exec' = Msg ?exec"
      "millisecondsToInput exec' = millisecondsToInput ?exec"
    and t: "\<forall>pid. StartChild pid \<notin> set t"
    by blast
  have d: "done_exec exec' = (Return (), exec'\<lparr>isDone := True, doneChan := ClosedChan\<rparr>,
       [Close inPipe, CloseDoneChan, Close errPipe, Close out] @
       (if useNamedPipes exec' \<and> commsHandler exec' \<noteq> None then [ProgramFinished] else []))"
    by (rule done_exec_running) (use e assms(6) in simp_all)
  show ?thesis using b s d t by (simp add: Exec_def)
qed

subsection \<open>The output of the child\<close>

lemma Write_kernel:
  "snd (Write x w p k) = snd (PublishWriteStream x (w_msg w) (w_stream w) p k)"
  by (simp add: Write_def Let_def split: prod.splits)

lemma Write_published:
  "published (IOPubSocket (snd (Write x w p k))) =
     published (IOPubSocket k) @ streamedBy (JupyterWriter w) p x"
proof (cases "w_msg w")
  case None
  then show ?thesis by (simp add: Write_kernel PublishWriteStream_def)
next
  case (Some m)
  then show ?thesis
    by (simp add: Write_kernel PublishWriteStream_def Publish_published Publish_succeeds)
qed

lemma Write_others:
  "snd (Write x w p k) = k\<lparr>IOPubSocket := IOPubSocket (snd (Write x w p k))\<rparr>"
proof (cases "w_msg w")
  case None
  then show ?thesis by (simp add: Write_kernel PublishWriteStream_def)
next
  case (Some m)
  then show ?thesis
    using Publish_others[of x m "''stream''" "StreamContent (w_stream w) p" k]
    by (simp add: Write_kernel PublishWriteStream_def)
qed

lemma source_case_eta:
  "(case src of FromStdout \<Rightarrow> f FromStdout | FromStderr \<Rightarrow> f FromStderr) = f src"
  by (cases src) simp_all

lemma copyOutput_published:
  "published (IOPubSocket (fst (copyOutput outW errW cs k))) =
     published (IOPubSocket k) @
     concat (map (\<lambda>(src, p, x).
        streamedBy (case src of FromStdout \<Rightarrow> outW | FromStderr \<Rightarrow> errW) p x) cs)"
proof (induction cs arbitrary: k)
  case Nil
  then show ?case by simp
next
  case (Cons c cs)
  obtain src p x where c: "c = (src, p, x)" by (cases c)
  show ?case
  proof (cases "case src of FromStdout \<Rightarrow> outW | FromStderr \<Rightarrow> errW")
    case (JupyterWriter w)
    then show ?thesis
      using Cons.IH[of "snd (Write x w p k)"] by (simp add: c Write_published)
  next
    case (GivenWriter n)
    then show ?thesis
      using Cons.IH[of k] by (simp add: c case_prod_unfold)
  qed
qed

lemma copyOutput_others:
  "fst (copyOutput outW errW cs k) =
     k\<lparr>IOPubSocket := IOPubSocket (fst (copyOutput outW errW cs k))\<rparr>"
proof (induction cs arbitrary: k)
  case Nil
  then show ?case by simp
next
  case (Cons c cs)
  obtain src p x where c: "c = (src, p, x)" by (cases c)
  show ?case
  proof (cases "case src of FromStdout \<Rightarrow> outW | FromStderr \<Rightarrow> errW")
    case (JupyterWriter w)
    have "fst (copyOutput outW errW cs (snd (Write x w p k))) =
        (snd (Write x w p k))\<lparr>IOPubSocket :=
           IOPubSocket (fst (copyOutput outW errW cs (snd (Write x w p k))))\<rparr>"
      by (rule Cons.IH)
    also have "\<dots> = k\<lparr>IOPubSocket :=
           IOPubSocket (fst (copyOutput outW errW cs (snd (Write x w p k))))\<rparr>"
      by (subst Write_others) simp
    finally show ?thesis using JupyterWriter by (simp add: c)
  next
    case (GivenWriter n)
    then show ?thesis
      using Cons.IH[of k] by (simp add: c case_prod_unfold)
  qed
qed

lemma copyOutput_subscriptions:
  "subscriptions (fst (copyOutput outW errW cs k)) = subscriptions k"
  by (subst copyOutput_others) simp

subsection \<open>The running execution and the exit of the child\<close>

text \<open>
  Past the setup and with a message, \<open>Exec_started\<close> reaches the point where it waits:
  the child has started, the callback is subscribed, the output is copied. From there
  it waits, or it goes on to the exit of the child.
\<close>

lemma Exec_started_wait:
  assumes "(if useNamedPipes exec then handleNamedPipes env else None) = None"
    and "Start env = Inr pid" and "Msg exec = Some m"
  shows "\<exists>exec' k2 w t.
     copyOutput (writerOf exec FromStdout) (writerOf exec FromStderr) (childOutput env)
       (SubscribeInterrupt (newSubscriptionId env)
          (InterruptFn pid (newSubscriptionId env)) k) = (k2, w) \<and>
     isDone exec' = isDone exec \<and> doneChan exec' = doneChan exec \<and>
     cmdStdin exec' = cmdStdin exec \<and> cmdStdout exec' = cmdStdout exec \<and>
     cmdStderr exec' = cmdStderr exec \<and> Msg exec' = Msg exec \<and>
     StartChild pid \<in> set t \<and>
     Exec_started env exec k =
       (if \<not> streamersDone env then (Blocks, exec', k2, t)
        else case Wait env of
               None \<Rightarrow> (Blocks, exec', k2, t)
             | Some None \<Rightarrow>
                 (Returns None, exec', UnsubscribeInterrupt (newSubscriptionId env) k2, t)
             | Some (Some e) \<Rightarrow>
                 (Returns None, exec',
                  UnsubscribeInterrupt (newSubscriptionId env)
                    (snd (Publish (publishCalls env) m ''stream''
                            (StreamContent ''stderr'' (exitText env e)) k2)), t))"
proof -
  obtain k2 w where c:
    "copyOutput (writerOf exec FromStdout) (writerOf exec FromStderr) (childOutput env)
       (SubscribeInterrupt (newSubscriptionId env)
          (InterruptFn pid (newSubscriptionId env)) k) = (k2, w)"
    by (cases "copyOutput (writerOf exec FromStdout) (writerOf exec FromStderr)
       (childOutput env) (SubscribeInterrupt (newSubscriptionId env)
          (InterruptFn pid (newSubscriptionId env)) k)")
  let ?exec' = "exec\<lparr>stdoutWriter := Some (writerOf exec FromStdout),
       stderrWriter := Some (writerOf exec FromStderr),
       cmd := map_option (\<lambda>c. c\<lparr>Process := Some pid\<rparr>) (cmd exec)\<rparr>"
  let ?t = "[Go CopyStdout, Go CopyStderr] @
       (if 0 < millisecondsToInput exec then [Go SchedulePrompt] else []) @
       (if useNamedPipes exec \<and> commsHandler exec \<noteq> None then [ProgramStart] else []) @
       [StartChild pid] @
       (if stdinContent exec \<noteq> None then [Go WriteStaticInput] else []) @ w"
  have main: "Exec_started env exec k =
       (if \<not> streamersDone env then (Blocks, ?exec', k2, ?t)
        else case Wait env of
               None \<Rightarrow> (Blocks, ?exec', k2, ?t)
             | Some None \<Rightarrow>
                 (Returns None, ?exec', UnsubscribeInterrupt (newSubscriptionId env) k2, ?t)
             | Some (Some e) \<Rightarrow>
                 (Returns None, ?exec',
                  UnsubscribeInterrupt (newSubscriptionId env)
                    (snd (Publish (publishCalls env) m ''stream''
                            (StreamContent ''stderr'' (exitText env e)) k2)), ?t))"
    using assms c
    by (cases "useNamedPipes exec"; cases "stdoutWriter exec"; cases "stderrWriter exec")
      (auto simp add: Exec_started_def Let_def writerOf_def NewJupyterStreamWriter_def
        StreamStdout_def StreamStderr_def PublishWriteStream_def exitText_def
        split: option.splits)
  show ?thesis
    by (intro exI[of _ ?exec'] exI[of _ k2] exI[of _ w] exI[of _ ?t] conjI c main)
      (simp_all add: assms)
qed

lemma Exec_wait:
  assumes "StdoutPipe env = Inr outPipe" and "StderrPipe env = Inr errPipe"
    and "StdinPipe env = Inr inPipe"
    and "(if useNamedPipes exec then handleNamedPipes env else None) = None"
    and "Start env = Inr pid" and "Msg exec = Some m"
  shows "\<exists>exec' k2 t.
     subscriptions k2 = subscriptions k @
        [(newSubscriptionId env, InterruptFn pid (newSubscriptionId env))] \<and>
     published (IOPubSocket k2) =
        published (IOPubSocket k) @ streamed exec (childOutput env) \<and>
     isDone exec' = False \<and> doneChan exec' = OpenChan \<and>
     cmdStdin exec' = Some inPipe \<and> cmdStdout exec' = Some outPipe \<and>
     cmdStderr exec' = Some errPipe \<and> Msg exec' = Some m \<and>
     StartChild pid \<in> set t \<and>
     Exec_body env exec k =
       (if \<not> streamersDone env then (Blocks, exec', k2, t)
        else case Wait env of
               None \<Rightarrow> (Blocks, exec', k2, t)
             | Some None \<Rightarrow>
                 (Returns None, exec', UnsubscribeInterrupt (newSubscriptionId env) k2, t)
             | Some (Some e) \<Rightarrow>
                 (Returns None, exec',
                  UnsubscribeInterrupt (newSubscriptionId env)
                    (snd (Publish (publishCalls env) m ''stream''
                            (StreamContent ''stderr'' (exitText env e)) k2)), t))"
proof -
  let ?exec = "exec\<lparr>isDone := False, doneChan := OpenChan,
       cmd := Some \<lparr>Path = command exec, Args = args exec, Dir = dir exec, Process = None\<rparr>,
       cmdStdout := Some outPipe, cmdStderr := Some errPipe, cmdStdin := Some inPipe\<rparr>"
  let ?k1 = "SubscribeInterrupt (newSubscriptionId env)
          (InterruptFn pid (newSubscriptionId env)) k"
  have b: "Exec_body env exec k = Exec_started env ?exec k"
    using assms(1-3) by (simp add: Exec_body_def Let_def)
  have wr: "writerOf ?exec = writerOf exec"
    by (rule ext) (simp add: writerOf_def split: source.splits option.splits)
  have np: "(if useNamedPipes ?exec then handleNamedPipes env else None) = None"
    using assms(4) by simp
  have ms: "Msg ?exec = Some m" using assms(6) by simp
  from Exec_started_wait[OF np assms(5) ms, of k] obtain exec' k2 w t where
    c: "copyOutput (writerOf exec FromStdout) (writerOf exec FromStderr) (childOutput env) ?k1
          = (k2, w)"
    and e: "isDone exec' = False" "doneChan exec' = OpenChan"
      "cmdStdin exec' = Some inPipe" "cmdStdout exec' = Some outPipe"
      "cmdStderr exec' = Some errPipe" "Msg exec' = Some m" "StartChild pid \<in> set t"
    and s: "Exec_started env ?exec k =
       (if \<not> streamersDone env then (Blocks, exec', k2, t)
        else case Wait env of
               None \<Rightarrow> (Blocks, exec', k2, t)
             | Some None \<Rightarrow>
                 (Returns None, exec', UnsubscribeInterrupt (newSubscriptionId env) k2, t)
             | Some (Some e) \<Rightarrow>
                 (Returns None, exec',
                  UnsubscribeInterrupt (newSubscriptionId env)
                    (snd (Publish (publishCalls env) m ''stream''
                            (StreamContent ''stderr'' (exitText env e)) k2)), t))"
    unfolding wr using assms(6) by auto
  have k2: "k2 = fst (copyOutput (writerOf exec FromStdout) (writerOf exec FromStderr)
                        (childOutput env) ?k1)"
    using c by simp
  have "subscriptions k2 = subscriptions ?k1"
    unfolding k2 by (rule copyOutput_subscriptions)
  then have s2: "subscriptions k2 = subscriptions k @
        [(newSubscriptionId env, InterruptFn pid (newSubscriptionId env))]"
    by (simp add: SubscribeInterrupt_def)
  have "published (IOPubSocket k2) = published (IOPubSocket ?k1) @
          streamed exec (childOutput env)"
    unfolding k2 copyOutput_published streamed_def by (simp add: source_case_eta)
  then have p2: "published (IOPubSocket k2) = published (IOPubSocket k) @
          streamed exec (childOutput env)"
    by (simp add: SubscribeInterrupt_def)
  show ?thesis using b s e s2 p2 by auto
qed

lemma Exec_running:
  assumes "StdoutPipe env = Inr outPipe" and "StderrPipe env = Inr errPipe"
    and "StdinPipe env = Inr inPipe"
    and "(if useNamedPipes exec then handleNamedPipes env else None) = None"
    and "Start env = Inr pid" and "Msg exec = Some m"
    and "\<not> streamersDone env \<or> Wait env = None"
  shows "resultOf (Exec env exec k) = Blocks \<and>
     StartChild pid \<in> set (effectsOf (Exec env exec k)) \<and>
     subscriptions (kernelOf (Exec env exec k)) = subscriptions k @
        [(newSubscriptionId env, InterruptFn pid (newSubscriptionId env))] \<and>
     published (IOPubSocket (kernelOf (Exec env exec k))) =
        published (IOPubSocket k) @ streamed exec (childOutput env)"
proof -
  from Exec_wait[OF assms(1-6), of k] obtain exec' k2 t where
    s: "subscriptions k2 = subscriptions k @
        [(newSubscriptionId env, InterruptFn pid (newSubscriptionId env))]"
    and p: "published (IOPubSocket k2) =
        published (IOPubSocket k) @ streamed exec (childOutput env)"
    and c: "StartChild pid \<in> set t"
    and b: "Exec_body env exec k =
       (if \<not> streamersDone env then (Blocks, exec', k2, t)
        else case Wait env of
               None \<Rightarrow> (Blocks, exec', k2, t)
             | Some None \<Rightarrow>
                 (Returns None, exec', UnsubscribeInterrupt (newSubscriptionId env) k2, t)
             | Some (Some e) \<Rightarrow>
                 (Returns None, exec',
                  UnsubscribeInterrupt (newSubscriptionId env)
                    (snd (Publish (publishCalls env) m ''stream''
                            (StreamContent ''stderr'' (exitText env e)) k2)), t))"
    by blast
  have "Exec_body env exec k = (Blocks, exec', k2, t)"
    using b assms(7) by auto
  then have "Exec env exec k = (Blocks, exec', k2, t)"
    by (simp add: Exec_def)
  then show ?thesis using s p c by (simp add: resultOf_def kernelOf_def effectsOf_def)
qed




subsection \<open>The interrupt callback\<close>

lemma select_bound: "snd (selectDoneOrAfter se timeout) \<le> timeout"
  by (simp add: selectDoneOrAfter_def split: option.splits)

lemma select_timeout:
  "fst (selectDoneOrAfter se timeout) = TimeAfterCase \<Longrightarrow>
     snd (selectDoneOrAfter se timeout) = timeout"
  by (auto simp add: selectDoneOrAfter_def split: option.splits if_splits)

lemma select_not_come:
  "doneClosedAfter se = None \<or> (\<exists>t. doneClosedAfter se = Some t \<and> timeout < t) \<Longrightarrow>
     fst (selectDoneOrAfter se timeout) = TimeAfterCase"
  by (auto simp add: selectDoneOrAfter_def split: option.splits)

lemma select_come:
  "\<exists>t. doneClosedAfter se = Some t \<and> t < timeout \<Longrightarrow>
     fst (selectDoneOrAfter se timeout) = DoneChanCase"
  by (auto simp add: selectDoneOrAfter_def split: option.splits)

lemma callback_effects:
  "fst (interruptCallback se (InterruptFn pid interruptId) subId k) =
      [Kill (int pid) Interrupt, Waited (snd (selectDoneOrAfter se WaitToKill))] @
      (if fst (selectDoneOrAfter se WaitToKill) = TimeAfterCase
       then [Kill (int pid) SIGKILL] else [])"
  by (simp add: Let_def split: prod.splits selected.splits)

lemma callback_kernel:
  "snd (interruptCallback se (InterruptFn pid interruptId) subId k) =
     UnsubscribeInterrupt interruptId k"
  by (simp add: Let_def split: prod.splits selected.splits)

declare interruptCallback.simps [simp del]

lemma callSubscribers_append:
  "callSubscribers call (ss @ ss') k =
     (fst (callSubscribers call ss k) @
        fst (callSubscribers call ss' (snd (callSubscribers call ss k))),
      snd (callSubscribers call ss' (snd (callSubscribers call ss k))))"
  by (induction ss arbitrary: k) (auto split: prod.splits)

lemma callSubscribers_one:
  "callSubscribers call [(subId, fn)] k = call fn subId k"
  by (simp split: prod.splits)

text \<open>After a request every subscription whose id a called callback held is gone.\<close>

lemma callSubscribers_subscriptions:
  "subscriptions (snd (callSubscribers (interruptCallback se) ss k)) =
     filter (\<lambda>s. fst s \<notin> closureId ` set ss) (subscriptions k)"
proof (induction ss arbitrary: k)
  case Nil
  then show ?case by simp
next
  case (Cons s ss)
  obtain subId pid interruptId where s: "s = (subId, InterruptFn pid interruptId)"
    by (cases s, rename_tac a b, case_tac b) auto
  let ?r = "interruptCallback se (InterruptFn pid interruptId) subId k"
  have "callSubscribers (interruptCallback se) (s # ss) k =
      (fst ?r @ fst (callSubscribers (interruptCallback se) ss (snd ?r)),
       snd (callSubscribers (interruptCallback se) ss (snd ?r)))"
    by (simp add: s split: prod.splits)
  then show ?case
    using Cons.IH[of "snd ?r"]
    by (auto simp add: s callback_kernel UnsubscribeInterrupt_def intro: filter_cong)
qed

text \<open>The callbacks registered for other children do not signal this one.\<close>

lemma callSubscribers_others:
  "list_all (otherChild pid) ss \<Longrightarrow>
     count_list (fst (callSubscribers (interruptCallback se) ss k)) (Kill (int pid) sg) = 0"
proof (induction ss arbitrary: k)
  case Nil
  then show ?case by simp
next
  case (Cons s ss)
  obtain subId p interruptId where s: "s = (subId, InterruptFn p interruptId)"
    by (cases s, rename_tac a b, case_tac b) auto
  let ?r = "interruptCallback se (InterruptFn p interruptId) subId k"
  have c: "callSubscribers (interruptCallback se) (s # ss) k =
      (fst ?r @ fst (callSubscribers (interruptCallback se) ss (snd ?r)),
       snd (callSubscribers (interruptCallback se) ss (snd ?r)))"
    by (simp add: s split: prod.splits)
  from Cons.prems have r: "list_all (otherChild pid) ss" by simp
  from Cons.prems have p: "p \<noteq> pid" by (simp add: s otherChild_def)
  show ?case
    using Cons.IH[OF r, of "snd ?r"] p by (simp add: c callback_effects)
qed

lemma request_on_running:
  assumes r: "subscriptions running = others @ [(interruptId, InterruptFn pid interruptId)]"
    and o: "list_all (otherChild pid) others"
  shows "count_list (fst (interruptRequest (interruptCallback se) running))
           (Kill (int pid) Interrupt) = 1 \<and>
     count_list (fst (interruptRequest (interruptCallback se) running))
           (Kill (int pid) SIGKILL) =
        (if fst (selectDoneOrAfter se WaitToKill) = TimeAfterCase then 1 else 0) \<and>
     subscriptions (snd (interruptRequest (interruptCallback se) running)) = [] \<and>
     interruptRequest (interruptCallback se')
         (snd (interruptRequest (interruptCallback se) running)) =
       ([], snd (interruptRequest (interruptCallback se) running))"
proof -
  let ?call = "interruptCallback se"
  let ?k1 = "snd (callSubscribers ?call others running)"
  let ?own = "interruptCallback se (InterruptFn pid interruptId) interruptId ?k1"
  have q: "interruptRequest ?call running =
      (fst (callSubscribers ?call others running) @ fst ?own, snd ?own)"
    by (simp add: interruptRequest_def r callSubscribers_append callSubscribers_one)
  have c1: "count_list (fst (interruptRequest ?call running)) (Kill (int pid) Interrupt) = 1"
    by (simp add: q callSubscribers_others[OF o] callback_effects)
  have c2: "count_list (fst (interruptRequest ?call running)) (Kill (int pid) SIGKILL) =
        (if fst (selectDoneOrAfter se WaitToKill) = TimeAfterCase then 1 else 0)"
    by (simp add: q callSubscribers_others[OF o] callback_effects)
  have ids: "closureId ` set (subscriptions running) = fst ` set (subscriptions running)"
    using o by (auto simp add: r otherChild_def list_all_iff image_iff)
  have "subscriptions (snd (interruptRequest ?call running)) =
      filter (\<lambda>s. fst s \<notin> closureId ` set (subscriptions running)) (subscriptions running)"
    unfolding interruptRequest_def by (rule callSubscribers_subscriptions)
  then have e: "subscriptions (snd (interruptRequest ?call running)) = []"
    unfolding ids by (simp add: filter_empty_conv)
  then have n: "interruptRequest (interruptCallback se') (snd (interruptRequest ?call running)) =
       ([], snd (interruptRequest ?call running))"
    by (simp add: interruptRequest_def)
  show ?thesis by (intro conjI c1 c2 e n)
qed

text \<open>
  Claim C2, as amended. While \<open>Exec\<close> waits for the child it has started (its message not
  being nil), the callback it has subscribed is registered under the id that the kernel
  returned and holds the pid of that child. When it is called it sends the interrupt
  signal to the child process (the one process, never a process group), removes its own
  subscription, and waits on the completion channel for at most \<open>WaitToKill\<close>, which is
  five seconds. When the completion has not come within that time (it never comes, or
  comes later) the timeout case is taken, the wait has lasted \<open>WaitToKill\<close>, and the
  callback sends the kill signal to the child process; when the completion comes
  earlier it sends nothing more. On a session whose other subscriptions are those of
  other executions, an interrupt request signals this child once and leaves no
  subscription, so that a repeated request sends nothing.
\<close>

theorem interrupt_callback:
  assumes "StdoutPipe env = Inr outPipe" and "StderrPipe env = Inr errPipe"
    and "StdinPipe env = Inr inPipe"
    and "(if useNamedPipes exec then handleNamedPipes env else None) = None"
    and "Start env = Inr pid" and "Msg exec = Some m"
    and "\<not> streamersDone env \<or> Wait env = None"
  shows
   "(let running = kernelOf (Exec env exec k);
         interruptId = newSubscriptionId env;
         fired = interruptCallback se (InterruptFn pid interruptId) interruptId running;
         sel = selectDoneOrAfter se WaitToKill;
         request1 = interruptRequest (interruptCallback se) running;
         request2 = interruptRequest (interruptCallback se') (snd request1)
     in resultOf (Exec env exec k) = Blocks \<and>
        StartChild pid \<in> set (effectsOf (Exec env exec k)) \<and>
        subscriptions running =
          subscriptions k @ [(interruptId, InterruptFn pid interruptId)] \<and>
        fst fired =
          [Kill (int pid) Interrupt, Waited (snd sel)] @
          (if fst sel = TimeAfterCase then [Kill (int pid) SIGKILL] else []) \<and>
        \<not> list_ex toProcessGroup (fst fired) \<and>
        snd fired = UnsubscribeInterrupt interruptId running \<and>
        interruptId \<notin> fst ` set (subscriptions (snd fired)) \<and>
        snd sel \<le> WaitToKill \<and> WaitToKill = 5000000000 \<and>
        (fst sel = TimeAfterCase \<longrightarrow> snd sel = WaitToKill) \<and>
        (doneClosedAfter se = None \<or> (\<exists>t. doneClosedAfter se = Some t \<and> WaitToKill < t)
           \<longrightarrow> fst sel = TimeAfterCase) \<and>
        ((\<exists>t. doneClosedAfter se = Some t \<and> t < WaitToKill) \<longrightarrow> fst sel = DoneChanCase) \<and>
        (list_all (otherChild pid) (subscriptions k) \<longrightarrow>
           count_list (fst request1) (Kill (int pid) Interrupt) = 1 \<and>
           count_list (fst request1) (Kill (int pid) SIGKILL) =
             (if fst sel = TimeAfterCase then 1 else 0) \<and>
           subscriptions (snd request1) = [] \<and>
           request2 = ([], snd request1)))"
proof -
  note r = Exec_running[OF assms, of k]
  let ?running = "kernelOf (Exec env exec k)"
  let ?id = "newSubscriptionId env"
  have s: "subscriptions ?running = subscriptions k @ [(?id, InterruptFn pid ?id)]"
    using r by simp
  have g: "\<not> list_ex toProcessGroup
      (fst (interruptCallback se (InterruptFn pid ?id) ?id ?running))"
    by (simp add: callback_effects)
  have u: "?id \<notin> fst ` set (subscriptions
      (snd (interruptCallback se (InterruptFn pid ?id) ?id ?running)))"
    by (auto simp add: callback_kernel UnsubscribeInterrupt_def)
  have w: "WaitToKill = 5000000000" by (simp add: WaitToKill_def Second_def)
  have q: "list_all (otherChild pid) (subscriptions k) \<longrightarrow>
     count_list (fst (interruptRequest (interruptCallback se) ?running))
           (Kill (int pid) Interrupt) = 1 \<and>
     count_list (fst (interruptRequest (interruptCallback se) ?running))
           (Kill (int pid) SIGKILL) =
        (if fst (selectDoneOrAfter se WaitToKill) = TimeAfterCase then 1 else 0) \<and>
     subscriptions (snd (interruptRequest (interruptCallback se) ?running)) = [] \<and>
     interruptRequest (interruptCallback se')
         (snd (interruptRequest (interruptCallback se) ?running)) =
       ([], snd (interruptRequest (interruptCallback se) ?running))"
    using request_on_running[OF s] by blast
  have r1: "resultOf (Exec env exec k) = Blocks"
    and r2: "StartChild pid \<in> set (effectsOf (Exec env exec k))"
    using r by simp_all
  have t1: "fst (selectDoneOrAfter se WaitToKill) = TimeAfterCase \<longrightarrow>
      snd (selectDoneOrAfter se WaitToKill) = WaitToKill"
    using select_timeout by blast
  have t2: "doneClosedAfter se = None \<or> (\<exists>t. doneClosedAfter se = Some t \<and> WaitToKill < t)
      \<longrightarrow> fst (selectDoneOrAfter se WaitToKill) = TimeAfterCase"
    using select_not_come by blast
  have t3: "(\<exists>t. doneClosedAfter se = Some t \<and> t < WaitToKill) \<longrightarrow>
      fst (selectDoneOrAfter se WaitToKill) = DoneChanCase"
    using select_come by blast
  show ?thesis
    unfolding Let_def
    by (intro conjI r1 r2 s g u w q t1 t2 t3 select_bound callback_effects callback_kernel)
qed

theorem interrupt_callback_witness:
  "StdoutPipe runningEnv = Inr 3 \<and> StderrPipe runningEnv = Inr 4 \<and>
   StdinPipe runningEnv = Inr 5 \<and>
   (if useNamedPipes (New (Some request) ''prog'' []) then handleNamedPipes runningEnv
    else None) = None \<and>
   Start runningEnv = Inr 4242 \<and> Msg (New (Some request) ''prog'' []) = Some request \<and>
   \<not> streamersDone runningEnv \<and>
   list_all (otherChild 4242) (subscriptions busyKernel) \<and>
   doneClosedAfter neverDone = None \<and>
   (\<exists>t. doneClosedAfter doneSoon = Some t \<and> t < WaitToKill) \<and>
   resultOf (Exec runningEnv (New (Some request) ''prog'' []) busyKernel) = Blocks \<and>
   subscriptions (kernelOf (Exec runningEnv (New (Some request) ''prog'' []) busyKernel)) =
     [(6, InterruptFn 5000 6), (7, InterruptFn 4242 7)] \<and>
   fst (interruptCallback neverDone (InterruptFn 4242 7) 7
          (kernelOf (Exec runningEnv (New (Some request) ''prog'' []) busyKernel))) =
     [Kill 4242 Interrupt, Waited 5000000000, Kill 4242 SIGKILL] \<and>
   fst (interruptCallback doneSoon (InterruptFn 4242 7) 7
          (kernelOf (Exec runningEnv (New (Some request) ''prog'' []) busyKernel))) =
     [Kill 4242 Interrupt, Waited 1000000000] \<and>
   count_list
     (fst (interruptRequest (interruptCallback neverDone)
        (kernelOf (Exec runningEnv (New (Some request) ''prog'' []) busyKernel))))
     (Kill 4242 Interrupt) = 1 \<and>
   fst (interruptRequest (interruptCallback neverDone)
     (snd (interruptRequest (interruptCallback neverDone)
        (kernelOf (Exec runningEnv (New (Some request) ''prog'' []) busyKernel))))) = []"
proof -
  let ?exec = "New (Some request) ''prog'' []"
  have h: "StdoutPipe runningEnv = Inr 3" "StderrPipe runningEnv = Inr 4"
    "StdinPipe runningEnv = Inr 5"
    "(if useNamedPipes ?exec then handleNamedPipes runningEnv else None) = None"
    "Start runningEnv = Inr 4242" "Msg ?exec = Some request"
    "\<not> streamersDone runningEnv \<or> Wait runningEnv = None"
    by (simp_all add: runningEnv_def okEnv_def New_def)
  have i: "newSubscriptionId runningEnv = 7"
    by (simp add: runningEnv_def okEnv_def)
  have o: "subscriptions busyKernel = [(6, InterruptFn 5000 6)]"
    by (simp add: busyKernel_def SubscribeInterrupt_def freshKernel_def)
  have l: "list_all (otherChild 4242) (subscriptions busyKernel)"
    by (simp add: o otherChild_def)
  have n: "doneClosedAfter neverDone = None" by (simp add: neverDone_def)
  have d: "\<exists>t. doneClosedAfter doneSoon = Some t \<and> t < WaitToKill"
    by (simp add: doneSoon_def WaitToKill_def Second_def)
  have sn: "selectDoneOrAfter neverDone WaitToKill = (TimeAfterCase, 5000000000)"
    by (simp add: selectDoneOrAfter_def neverDone_def WaitToKill_def Second_def)
  have sd: "selectDoneOrAfter doneSoon WaitToKill = (DoneChanCase, 1000000000)"
    by (simp add: selectDoneOrAfter_def doneSoon_def WaitToKill_def Second_def)
  have h7: "\<not> streamersDone runningEnv"
    by (simp add: runningEnv_def okEnv_def)
  note a = interrupt_callback[where k = busyKernel and se = neverDone and se' = neverDone,
      OF h, unfolded Let_def i o sn]
  note b = interrupt_callback[where k = busyKernel and se = doneSoon and se' = neverDone,
      OF h, unfolded Let_def i o sd]
  have a1: "resultOf (Exec runningEnv ?exec busyKernel) = Blocks"
    using a by (rule conjunct1)
  have a3: "subscriptions (kernelOf (Exec runningEnv ?exec busyKernel)) =
      [(6, InterruptFn 5000 6), (7, InterruptFn 4242 7)]"
    using a[THEN conjunct2, THEN conjunct2, THEN conjunct1] by simp
  have a4: "fst (interruptCallback neverDone (InterruptFn 4242 7) 7
          (kernelOf (Exec runningEnv ?exec busyKernel))) =
     [Kill 4242 Interrupt, Waited 5000000000, Kill 4242 SIGKILL]"
    using a[THEN conjunct2, THEN conjunct2, THEN conjunct2, THEN conjunct1] by simp
  have b4: "fst (interruptCallback doneSoon (InterruptFn 4242 7) 7
          (kernelOf (Exec runningEnv ?exec busyKernel))) =
     [Kill 4242 Interrupt, Waited 1000000000]"
    using b[THEN conjunct2, THEN conjunct2, THEN conjunct2, THEN conjunct1] by simp
  have q: "list_all (otherChild 4242) [(6, InterruptFn 5000 6)]"
    using l o by simp
  from a q have c: "count_list
       (fst (interruptRequest (interruptCallback neverDone)
          (kernelOf (Exec runningEnv ?exec busyKernel))))
       (Kill (int 4242) Interrupt) = 1 \<and>
     interruptRequest (interruptCallback neverDone)
       (snd (interruptRequest (interruptCallback neverDone)
          (kernelOf (Exec runningEnv ?exec busyKernel)))) =
     ([], snd (interruptRequest (interruptCallback neverDone)
          (kernelOf (Exec runningEnv ?exec busyKernel))))"
    by blast
  have c1: "count_list
     (fst (interruptRequest (interruptCallback neverDone)
        (kernelOf (Exec runningEnv ?exec busyKernel))))
     (Kill 4242 Interrupt) = 1"
    using c[THEN conjunct1] by simp
  have c4: "fst (interruptRequest (interruptCallback neverDone)
     (snd (interruptRequest (interruptCallback neverDone)
        (kernelOf (Exec runningEnv ?exec busyKernel))))) = []"
    using c[THEN conjunct2] by simp
  show ?thesis by (intro conjI h(1-6) h7 l n d a1 a3 a4 b4 c1 c4)
qed

text \<open>
  The claim as stated has the interrupt signal go to the process group of the child. On
  the running execution of the child 4242 whose completion never comes, an interrupt
  request sends an interrupt and then a kill, both to the process 4242 itself; no signal
  has a process group as its target.
\<close>

theorem interrupt_signal_counterexample:
  "\<not> list_ex toProcessGroup
       (fst (interruptRequest (interruptCallback neverDone)
          (kernelOf (Exec runningEnv (New (Some request) ''prog'' []) freshKernel)))) \<and>
   fst (interruptRequest (interruptCallback neverDone)
          (kernelOf (Exec runningEnv (New (Some request) ''prog'' []) freshKernel))) =
     [Kill 4242 Interrupt, Waited 5000000000, Kill 4242 SIGKILL]"
proof -
  let ?exec = "New (Some request) ''prog'' []"
  have h: "StdoutPipe runningEnv = Inr 3" "StderrPipe runningEnv = Inr 4"
    "StdinPipe runningEnv = Inr 5"
    "(if useNamedPipes ?exec then handleNamedPipes runningEnv else None) = None"
    "Start runningEnv = Inr 4242" "Msg ?exec = Some request"
    "\<not> streamersDone runningEnv \<or> Wait runningEnv = None"
    by (simp_all add: runningEnv_def okEnv_def New_def)
  have "subscriptions (kernelOf (Exec runningEnv ?exec freshKernel)) =
      [(7, InterruptFn 4242 7)]"
    using Exec_running[OF h, of freshKernel]
    by (simp add: runningEnv_def okEnv_def freshKernel_def)
  then have "fst (interruptRequest (interruptCallback neverDone)
          (kernelOf (Exec runningEnv ?exec freshKernel))) =
     [Kill 4242 Interrupt, Waited 5000000000, Kill 4242 SIGKILL]"
    by (simp add: interruptRequest_def callback_effects selectDoneOrAfter_def neverDone_def
        WaitToKill_def Second_def split: prod.splits)
  then show ?thesis by simp
qed

end
